theory Spec2Isabelle
  imports Complex_Main "HOL-Library.Multiset"
begin

section \<open>Numbers\<close>

text \<open>
  Python floats are modelled by the real numbers: rounding and overflow are not part of
  this development.  Candle prices are finite floats (type \<open>real\<close>).  A value of an
  indicator series is a finite float or pandas' missing value NaN (type \<open>real option\<close>,
  \<open>None\<close> for NaN).  The few results that can be infinite (a division by zero in numpy
  or between pandas Series yields an infinity or NaN, it does not raise) have the type
  \<open>fl\<close>.
\<close>

datatype fl = Fin real | PInf | NInf | NaN

text \<open>numpy's \<open>a / b\<close> on two finite floats.\<close>

definition np_div :: "real \<Rightarrow> real \<Rightarrow> fl" where
  "np_div a b =
     (if b \<noteq> 0 then Fin (a / b)
      else if 0 < a then PInf else if a < 0 then NInf else NaN)"

text \<open>Multiplication of a float by a positive finite constant.\<close>

fun fl_scale :: "fl \<Rightarrow> real \<Rightarrow> fl" where
  "fl_scale (Fin a) c = Fin (a * c)"
| "fl_scale x c = x"

fun fl_neg :: "fl \<Rightarrow> fl" where
  "fl_neg (Fin a) = Fin (- a)"
| "fl_neg PInf = NInf"
| "fl_neg NInf = PInf"
| "fl_neg NaN = NaN"

fun fl_add :: "fl \<Rightarrow> fl \<Rightarrow> fl" where
  "fl_add (Fin a) (Fin b) = Fin (a + b)"
| "fl_add NaN y = NaN"
| "fl_add x NaN = NaN"
| "fl_add PInf NInf = NaN"
| "fl_add NInf PInf = NaN"
| "fl_add PInf y = PInf"
| "fl_add NInf y = NInf"
| "fl_add x PInf = PInf"
| "fl_add x NInf = NInf"

text \<open>pandas' \<open>Series.sum()\<close>: missing values are skipped, the empty sum is 0.\<close>

definition sum_skipna :: "fl list \<Rightarrow> fl" where
  "sum_skipna xs = fold (\<lambda>x acc. fl_add acc x) (filter (\<lambda>x. x \<noteq> NaN) xs) (Fin 0)"

section \<open>Exceptions\<close>

text \<open>The exceptions the program raises; a function that can raise returns
  \<open>error + 'a\<close>, \<open>Inl\<close> for the exception.\<close>

datatype error = ValueError | KeyError | TypeError | ZeroDivisionError

text \<open>
  Python's \<open>a / b\<close> on two floats raises ZeroDivisionError when \<open>b\<close> is zero.  The
  values of a row of \<open>iterrows()\<close> are Python floats (the frame has columns of several
  types, so the row is an object Series), unlike the element-wise division of two
  pandas Series, which is \<open>np_div\<close>.
\<close>

definition py_div :: "real \<Rightarrow> real \<Rightarrow> error + real" where
  "py_div a b = (if b = 0 then Inl ZeroDivisionError else Inr (a / b))"

section \<open>Trades and the trade ledger (sma\_crossover.py, get\_entry\_exit\_pairs)\<close>

datatype position = Long | Short

record trade =
  entry_time :: int
  entry_price :: real
  exit_time :: int
  exit_price :: real
  position_type :: position
  pips_profit :: real
  percent_profit :: fl

text \<open>A row of the frame as the loop of \<open>get_entry_exit_pairs\<close> reads it:
  \<open>row['time']\<close>, \<open>row['close']\<close> and \<open>row['signal']\<close>.\<close>

record sigrow =
  r_time :: int
  r_close :: real
  r_signal :: int

text \<open>
  The loop variables \<open>position\<close>, \<open>entry_price\<close> and \<open>entry_time\<close> are assigned
  together, all \<open>None\<close> at the start: they are one optional triple here.
  (\<open>entry_idx\<close> is assigned with them and never read.)
\<close>

type_synonym open_position = "position \<times> real \<times> int"

text \<open>The dict appended on the exit of a long position; the division by the entry price
  raises when that price is zero.\<close>

definition long_trade :: "real \<Rightarrow> int \<Rightarrow> sigrow \<Rightarrow> error + trade" where
  "long_trade ep et row =
     (case py_div (r_close row - ep) ep of
        Inl e \<Rightarrow> Inl e
      | Inr q \<Rightarrow>
          Inr \<lparr> entry_time = et, entry_price = ep,
                exit_time = r_time row, exit_price = r_close row,
                position_type = Long,
                pips_profit = (r_close row - ep) * 10000,
                percent_profit = Fin (q * 100) \<rparr>)"

definition short_trade :: "real \<Rightarrow> int \<Rightarrow> sigrow \<Rightarrow> error + trade" where
  "short_trade ep et row =
     (case py_div (ep - r_close row) ep of
        Inl e \<Rightarrow> Inl e
      | Inr q \<Rightarrow>
          Inr \<lparr> entry_time = et, entry_price = ep,
                exit_time = r_time row, exit_price = r_close row,
                position_type = Short,
                pips_profit = (ep - r_close row) * 10000,
                percent_profit = Fin (q * 100) \<rparr>)"

text \<open>One iteration of \<open>for idx, row in signals.iterrows()\<close>.\<close>

fun process_row ::
    "sigrow \<Rightarrow> open_position option \<times> trade list \<Rightarrow> error + open_position option \<times> trade list" where
  "process_row row (None, trades) =
     (if r_signal row = 1 then Inr (Some (Long, r_close row, r_time row), trades)
      else if r_signal row = -1 then Inr (Some (Short, r_close row, r_time row), trades)
      else Inr (None, trades))"
| "process_row row (Some (pos, ep, et), trades) =
     (if pos = Long \<and> r_signal row = -1
      then (case long_trade ep et row of
              Inl e \<Rightarrow> Inl e
            | Inr t \<Rightarrow> Inr (Some (Short, r_close row, r_time row), trades @ [t]))
      else if pos = Short \<and> r_signal row = 1
      then (case short_trade ep et row of
              Inl e \<Rightarrow> Inl e
            | Inr t \<Rightarrow> Inr (Some (Long, r_close row, r_time row), trades @ [t]))
      else Inr (Some (pos, ep, et), trades))"

definition nonzero_signals :: "sigrow list \<Rightarrow> sigrow list" where
  "nonzero_signals rows = filter (\<lambda>r. r_signal r \<noteq> 0) rows"

text \<open>The loop, from a state; it stops at the first exception.\<close>

fun run_loop ::
    "sigrow list \<Rightarrow> open_position option \<times> trade list \<Rightarrow> error + open_position option \<times> trade list" where
  "run_loop [] st = Inr st"
| "run_loop (row # rest) st =
     (case process_row row st of
        Inl e \<Rightarrow> Inl e
      | Inr st' \<Rightarrow> run_loop rest st')"

definition run_rows :: "sigrow list \<Rightarrow> error + open_position option \<times> trade list" where
  "run_rows sigs = run_loop sigs (None, [])"

text \<open>The body of \<open>get_entry_exit_pairs\<close> on the rows of \<open>self.data\<close>.\<close>

definition entry_exit_pairs :: "sigrow list \<Rightarrow> error + trade list" where
  "entry_exit_pairs rows =
     (let signals = nonzero_signals rows
      in if length signals = 0 then Inr []
         else (case run_rows signals of
                 Inl e \<Rightarrow> Inl e
               | Inr st \<Rightarrow> Inr (snd st)))"

section \<open>Performance summary (sma\_crossover.py, get\_performance\_summary)\<close>

record performance =
  total_trades :: nat
  winning_trades :: nat
  losing_trades :: nat
  win_rate :: real
  total_pips :: real
  average_pips_per_trade :: real
  best_trade_pips :: real
  worst_trade_pips :: real
  average_win_pips :: real
  average_loss_pips :: real
  profit_factor :: fl
  total_return_percent :: fl

text \<open>The returned dict: either \<open>{'total_trades': 0, 'message': ...}\<close> or the twelve
  metrics.\<close>

datatype summary = NoTrades nat string | Metrics performance

definition winners :: "trade list \<Rightarrow> trade list" where
  "winners trades = filter (\<lambda>t. 0 < pips_profit t) trades"

definition losers :: "trade list \<Rightarrow> trade list" where
  "losers trades = filter (\<lambda>t. pips_profit t < 0) trades"

definition pips_sum :: "trade list \<Rightarrow> real" where
  "pips_sum trades = sum_list (map pips_profit trades)"

definition pips_mean :: "trade list \<Rightarrow> real" where
  "pips_mean trades = pips_sum trades / real (length trades)"

text \<open>\<open>Series.max()\<close> and \<open>Series.min()\<close>; they are only called on a non-empty ledger.\<close>

fun maximum :: "real list \<Rightarrow> real" where
  "maximum (x # xs) = fold max xs x"

fun minimum :: "real list \<Rightarrow> real" where
  "minimum (x # xs) = fold min xs x"

definition summarize :: "trade list \<Rightarrow> summary" where
  "summarize trades =
     (if length trades = 0 then NoTrades 0 ''No complete trades found''
      else
        let winning = winners trades; losing = losers trades
        in Metrics
          \<lparr> total_trades = length trades,
            winning_trades = length winning,
            losing_trades = length losing,
            win_rate = (if length trades > 0
                        then real (length winning) / real (length trades) * 100 else 0),
            total_pips = pips_sum trades,
            average_pips_per_trade = pips_mean trades,
            best_trade_pips = maximum (map pips_profit trades),
            worst_trade_pips = minimum (map pips_profit trades),
            average_win_pips = (if length winning > 0 then pips_mean winning else 0),
            average_loss_pips = (if length losing > 0 then pips_mean losing else 0),
            profit_factor = (if length losing > 0 \<and> pips_sum losing \<noteq> 0
                             then Fin \<bar>pips_sum winning / pips_sum losing\<bar> else PInf),
            total_return_percent = sum_skipna (map percent_profit trades) \<rparr>)"

section \<open>Indicator library (base\_strategy.py, TechnicalIndicators)\<close>

type_synonym series = "real option list"

text \<open>Comparisons: any comparison with NaN is false.\<close>

fun nan_lt :: "real option \<Rightarrow> real option \<Rightarrow> bool" where
  "nan_lt (Some a) (Some b) = (a < b)"
| "nan_lt _ _ = False"

fun nan_le :: "real option \<Rightarrow> real option \<Rightarrow> bool" where
  "nan_le (Some a) (Some b) = (a \<le> b)"
| "nan_le _ _ = False"

fun nan_sub :: "real option \<Rightarrow> real option \<Rightarrow> real option" where
  "nan_sub (Some a) (Some b) = Some (a - b)"
| "nan_sub _ _ = None"

fun nan_add :: "real option \<Rightarrow> real option \<Rightarrow> real option" where
  "nan_add (Some a) (Some b) = Some (a + b)"
| "nan_add _ _ = None"

text \<open>Element-wise arithmetic of two series of one frame (they share the index).\<close>

definition series_sub :: "series \<Rightarrow> series \<Rightarrow> series" where
  "series_sub xs ys = map (\<lambda>(x, y). nan_sub x y) (zip xs ys)"

definition series_add :: "series \<Rightarrow> series \<Rightarrow> series" where
  "series_add xs ys = map (\<lambda>(x, y). nan_add x y) (zip xs ys)"

text \<open>\<open>Series.shift(1)\<close>: every value moves one index down, index 0 becomes NaN.\<close>

definition shift1 :: "series \<Rightarrow> series" where
  "shift1 xs = take (length xs) (None # xs)"

text \<open>The values of a series that are not NaN.\<close>

fun observed :: "series \<Rightarrow> real list" where
  "observed [] = []"
| "observed (None # xs) = observed xs"
| "observed (Some x # xs) = x # observed xs"

text \<open>The trailing window of \<open>w\<close> values that ends at index \<open>i\<close> (shorter at the start).\<close>

definition trailing :: "nat \<Rightarrow> nat \<Rightarrow> 'a list \<Rightarrow> 'a list" where
  "trailing w i xs = drop (i + 1 - w) (take (i + 1) xs)"

definition mean :: "real list \<Rightarrow> real" where
  "mean xs = sum_list xs / real (length xs)"

text \<open>
  pandas' \<open>rolling(window=w, min_periods=minp).mean()\<close>: at each index the mean of the
  observations in the trailing window, NaN when there are fewer than \<open>minp\<close> of them or
  none.
\<close>

definition rolling_mean :: "nat \<Rightarrow> nat \<Rightarrow> series \<Rightarrow> series" where
  "rolling_mean w minp xs =
     map (\<lambda>i. let obs = observed (trailing w i xs)
              in if minp \<le> length obs \<and> 0 < length obs then Some (mean obs) else None)
         [0..<length xs]"

text \<open>pandas' \<open>rolling(window=w, min_periods=minp).std()\<close>, the sample standard
  deviation (ddof = 1): NaN also when there is a single observation.\<close>

definition sample_std :: "real list \<Rightarrow> real" where
  "sample_std xs =
     sqrt (sum_list (map (\<lambda>x. (x - mean xs)\<^sup>2) xs) / (real (length xs) - 1))"

definition rolling_std :: "nat \<Rightarrow> nat \<Rightarrow> series \<Rightarrow> series" where
  "rolling_std w minp xs =
     map (\<lambda>i. let obs = observed (trailing w i xs)
              in if minp \<le> length obs \<and> 1 < length obs then Some (sample_std obs) else None)
         [0..<length xs]"

text \<open>pandas rejects a negative window with a ValueError; \<open>min_periods\<close> is the window
  in every call of this library (explicitly, or by default in \<open>rsi\<close>).\<close>

definition rolling_window_mean :: "int \<Rightarrow> series \<Rightarrow> error + series" where
  "rolling_window_mean period xs =
     (if period < 0 then Inl ValueError
      else Inr (rolling_mean (nat period) (nat period) xs))"

definition sma :: "series \<Rightarrow> int \<Rightarrow> error + series" where
  "sma data period = rolling_window_mean period data"

text \<open>
  pandas' \<open>ewm(alpha, adjust=False, min_periods=minp).mean()\<close>, following its loop:
  \<open>weighted\<close> is the running average (NaN until the first observation), \<open>old_wt\<close> the
  weight of the past and \<open>nobs\<close> the number of observations so far.  A value is
  reported once \<open>nobs\<close> reaches \<open>max minp 1\<close>.
\<close>

fun ewm_loop :: "real \<Rightarrow> nat \<Rightarrow> real option \<Rightarrow> real \<Rightarrow> nat \<Rightarrow> series \<Rightarrow> series" where
  "ewm_loop \<alpha> minp weighted old_wt nobs [] = []"
| "ewm_loop \<alpha> minp weighted old_wt nobs (cur # rest) =
     (let nobs' = nobs + (if cur \<noteq> None then 1 else 0);
          weighted' =
            (case weighted of
               None \<Rightarrow> cur
             | Some w \<Rightarrow>
                (case cur of
                   None \<Rightarrow> Some w
                 | Some c \<Rightarrow> Some ((old_wt * (1 - \<alpha>) * w + \<alpha> * c) / (old_wt * (1 - \<alpha>) + \<alpha>))));
          old_wt' =
            (case weighted of
               None \<Rightarrow> old_wt
             | Some w \<Rightarrow> (case cur of None \<Rightarrow> old_wt * (1 - \<alpha>) | Some c \<Rightarrow> 1))
      in (if minp \<le> nobs' then weighted' else None)
         # ewm_loop \<alpha> minp weighted' old_wt' nobs' rest)"

fun ewm_mean :: "real \<Rightarrow> nat \<Rightarrow> series \<Rightarrow> series" where
  "ewm_mean \<alpha> minp0 [] = []"
| "ewm_mean \<alpha> minp0 (x # xs) =
     (let minp = max minp0 1; nobs = (if x \<noteq> None then 1 else 0)
      in (if minp \<le> nobs then x else None) # ewm_loop \<alpha> minp x 1 nobs xs)"

text \<open>\<open>ewm(span=...)\<close>: pandas requires \<open>span \<ge> 1\<close> and uses \<open>alpha = 2 / (span + 1)\<close>.\<close>

definition ewm_span :: "int \<Rightarrow> nat \<Rightarrow> series \<Rightarrow> error + series" where
  "ewm_span n minp xs =
     (if n < 1 then Inl ValueError
      else Inr (ewm_mean (2 / (real_of_int n + 1)) minp xs))"

definition ema :: "series \<Rightarrow> int \<Rightarrow> error + series" where
  "ema data period = ewm_span period (nat period) data"

text \<open>
  \<open>rsi\<close>.  \<open>delta.where(delta > 0, 0)\<close> keeps the positive differences and puts 0
  everywhere else, also at index 0 where \<open>delta\<close> is NaN.  In \<open>gain / loss\<close> a zero
  \<open>loss\<close> gives an infinite \<open>rs\<close> (or NaN when \<open>gain\<close> is zero too), and
  \<open>100 - 100 / (1 + rs)\<close> is then 100.
\<close>

definition diff1 :: "series \<Rightarrow> series" where
  "diff1 xs = series_sub xs (shift1 xs)"

definition gains :: "series \<Rightarrow> series" where
  "gains delta = map (\<lambda>d. if nan_lt (Some 0) d then d else Some 0) delta"

definition losses :: "series \<Rightarrow> series" where
  "losses delta = map (\<lambda>d. map_option uminus (if nan_lt d (Some 0) then d else Some 0)) delta"

fun rsi_value :: "real option \<times> real option \<Rightarrow> fl" where
  "rsi_value (Some g, Some l) =
     (if l = 0 then (if g = 0 then NaN else Fin 100)
      else fl_add (Fin 100) (fl_neg (np_div 100 (1 + g / l))))"
| "rsi_value _ = NaN"

definition rsi :: "series \<Rightarrow> int \<Rightarrow> error + fl list" where
  "rsi data period =
     (let delta = diff1 data
      in case rolling_window_mean period (gains delta) of
           Inl e \<Rightarrow> Inl e
         | Inr gain \<Rightarrow>
            (case rolling_window_mean period (losses delta) of
               Inl e \<Rightarrow> Inl e
             | Inr loss \<Rightarrow> Inr (map rsi_value (zip gain loss))))"

text \<open>\<open>atr\<close>.  The row-wise \<open>max(axis=1)\<close> skips NaN, so the true range at index 0 is
  \<open>high - low\<close>.\<close>

definition nan_max :: "real option list \<Rightarrow> real option" where
  "nan_max xs = (case observed xs of [] \<Rightarrow> None | y # ys \<Rightarrow> Some (fold max ys y))"

definition series_abs :: "series \<Rightarrow> series" where
  "series_abs xs = map (map_option abs) xs"

definition true_range :: "series \<Rightarrow> series \<Rightarrow> series \<Rightarrow> series" where
  "true_range high low close =
     (let high_low = series_sub high low;
          high_close = series_abs (series_sub high (shift1 close));
          low_close = series_abs (series_sub low (shift1 close))
      in map (\<lambda>(a, b, c). nan_max [a, b, c]) (zip high_low (zip high_close low_close)))"

definition atr :: "series \<Rightarrow> series \<Rightarrow> series \<Rightarrow> int \<Rightarrow> error + series" where
  "atr high low close period = rolling_window_mean period (true_range high low close)"

text \<open>\<open>bollinger_bands\<close> returns (middle, upper, lower).\<close>

definition series_scale :: "series \<Rightarrow> real \<Rightarrow> series" where
  "series_scale xs c = map (map_option (\<lambda>x. x * c)) xs"

definition bollinger_bands :: "series \<Rightarrow> int \<Rightarrow> real \<Rightarrow> error + series \<times> series \<times> series" where
  "bollinger_bands data period num_std =
     (if period < 0 then Inl ValueError
      else
        let middle_band = rolling_mean (nat period) (nat period) data;
            std = rolling_std (nat period) (nat period) data;
            upper_band = series_add middle_band (series_scale std num_std);
            lower_band = series_sub middle_band (series_scale std num_std)
        in Inr (middle_band, upper_band, lower_band))"

text \<open>\<open>macd\<close> returns (macd\_line, signal\_line, histogram).  Its three \<open>ewm\<close> calls pass
  no \<open>min_periods\<close>, whose default is 0.\<close>

definition macd :: "series \<Rightarrow> int \<Rightarrow> int \<Rightarrow> int \<Rightarrow> error + series \<times> series \<times> series" where
  "macd data fast slow signal =
     (case ewm_span fast 0 data of
        Inl e \<Rightarrow> Inl e
      | Inr ema_fast \<Rightarrow>
         (case ewm_span slow 0 data of
            Inl e \<Rightarrow> Inl e
          | Inr ema_slow \<Rightarrow>
             (let macd_line = series_sub ema_fast ema_slow
              in case ewm_span signal 0 macd_line of
                   Inl e \<Rightarrow> Inl e
                 | Inr signal_line \<Rightarrow>
                     Inr (macd_line, signal_line, series_sub macd_line signal_line))))"

section \<open>Data frames\<close>

text \<open>
  A pandas DataFrame is a set of named columns over one index.  The columns this program
  reads or writes are the fields of the record, each present (\<open>Some\<close>) or absent;
  \<open>nrows\<close> is \<open>len(df)\<close>.  Times are timestamps (\<open>datetime64\<close> values, as integers),
  so \<open>pd.to_datetime\<close> in \<open>load_data\<close> changes nothing of what is modelled.
\<close>

record frame =
  nrows :: nat
  c_time :: "int list option"
  c_open :: "real list option"
  c_high :: "real list option"
  c_low :: "real list option"
  c_close :: "real list option"
  c_volume :: "int list option"
  c_sma_short :: "series option"
  c_sma_long :: "series option"
  c_sma_diff :: "series option"
  c_crossover :: "int list option"
  c_signal :: "int list option"
  c_signal_strength :: "fl list option"

text \<open>\<open>pd.DataFrame()\<close>, the empty frame.\<close>

definition empty_frame :: frame where
  "empty_frame =
     \<lparr> nrows = 0, c_time = None, c_open = None, c_high = None, c_low = None,
       c_close = None, c_volume = None, c_sma_short = None, c_sma_long = None,
       c_sma_diff = None, c_crossover = None, c_signal = None, c_signal_strength = None \<rparr>"

definition col_ok :: "nat \<Rightarrow> 'a list option \<Rightarrow> bool" where
  "col_ok n c = (case c of None \<Rightarrow> True | Some xs \<Rightarrow> length xs = n)"

text \<open>Every column of a frame has one entry per row.\<close>

definition wf_frame :: "frame \<Rightarrow> bool" where
  "wf_frame df =
     (col_ok (nrows df) (c_time df) \<and> col_ok (nrows df) (c_open df) \<and>
      col_ok (nrows df) (c_high df) \<and> col_ok (nrows df) (c_low df) \<and>
      col_ok (nrows df) (c_close df) \<and> col_ok (nrows df) (c_volume df) \<and>
      col_ok (nrows df) (c_sma_short df) \<and> col_ok (nrows df) (c_sma_long df) \<and>
      col_ok (nrows df) (c_sma_diff df) \<and> col_ok (nrows df) (c_crossover df) \<and>
      col_ok (nrows df) (c_signal df) \<and> col_ok (nrows df) (c_signal_strength df))"

text \<open>\<open>col in df.columns\<close>.\<close>

definition has_column :: "frame \<Rightarrow> string \<Rightarrow> bool" where
  "has_column df col =
     (if col = ''time'' then c_time df \<noteq> None
      else if col = ''open'' then c_open df \<noteq> None
      else if col = ''high'' then c_high df \<noteq> None
      else if col = ''low'' then c_low df \<noteq> None
      else if col = ''close'' then c_close df \<noteq> None
      else if col = ''volume'' then c_volume df \<noteq> None
      else if col = ''sma_short'' then c_sma_short df \<noteq> None
      else if col = ''sma_long'' then c_sma_long df \<noteq> None
      else if col = ''sma_diff'' then c_sma_diff df \<noteq> None
      else if col = ''crossover'' then c_crossover df \<noteq> None
      else if col = ''signal'' then c_signal df \<noteq> None
      else if col = ''signal_strength'' then c_signal_strength df \<noteq> None
      else False)"

text \<open>Row selection by position: the rows \<open>p\<close> of every column, in the order of \<open>p\<close>.\<close>

definition take_rows :: "nat list \<Rightarrow> 'a list \<Rightarrow> 'a list" where
  "take_rows p xs = map (\<lambda>i. xs ! i) p"

definition select_rows :: "nat list \<Rightarrow> frame \<Rightarrow> frame" where
  "select_rows p df =
     \<lparr> nrows = length p,
       c_time = map_option (take_rows p) (c_time df),
       c_open = map_option (take_rows p) (c_open df),
       c_high = map_option (take_rows p) (c_high df),
       c_low = map_option (take_rows p) (c_low df),
       c_close = map_option (take_rows p) (c_close df),
       c_volume = map_option (take_rows p) (c_volume df),
       c_sma_short = map_option (take_rows p) (c_sma_short df),
       c_sma_long = map_option (take_rows p) (c_sma_long df),
       c_sma_diff = map_option (take_rows p) (c_sma_diff df),
       c_crossover = map_option (take_rows p) (c_crossover df),
       c_signal = map_option (take_rows p) (c_signal df),
       c_signal_strength = map_option (take_rows p) (c_signal_strength df) \<rparr>"

text \<open>The positions a boolean mask \<open>df[col] ...\<close> selects.\<close>

definition mask_rows :: "('a \<Rightarrow> bool) \<Rightarrow> 'a list \<Rightarrow> nat list" where
  "mask_rows P xs = filter (\<lambda>i. P (xs ! i)) [0..<length xs]"

text \<open>
  \<open>df.sort_values('time').reset_index(drop=True)\<close>: the rows in ascending order of
  time.  (The order pandas gives to rows of equal time is not fixed by its default sort;
  the model keeps their input order, and no theorem below depends on it.)
\<close>

definition argsort :: "int list \<Rightarrow> nat list" where
  "argsort ts = sort_key (\<lambda>i. ts ! i) [0..<length ts]"

definition sort_values_time :: "frame \<Rightarrow> error + frame" where
  "sort_values_time df =
     (case c_time df of
        None \<Rightarrow> Inl KeyError
      | Some ts \<Rightarrow> Inr (select_rows (argsort ts) df))"

section \<open>The strategy object (base\_strategy.py, sma\_crossover.py)\<close>

text \<open>
  \<open>self.data\<close> and \<open>self.signals\<close> are references to DataFrame objects, and after
  \<open>run\<close> both refer to one object.  Objects live in a store, a list of frames addressed
  by position; a new object is appended.  Python references never dangle, so a lookup
  is \<open>h ! a\<close> with \<open>a < length h\<close>.
\<close>

type_synonym addr = nat
type_synonym store = "frame list"

record strategy =
  name :: string
  parameters :: "(string \<times> int) list"
  short_period :: int
  long_period :: int
  min_candles_after_cross :: int
  data :: "addr option"
  signals :: "addr option"

text \<open>\<open>SMACrossoverStrategy.__init__\<close>.\<close>

definition init :: "int \<Rightarrow> int \<Rightarrow> int \<Rightarrow> error + strategy" where
  "init short_p long_p min_candles =
     (let self = \<lparr> name = ''SMA_Crossover'',
                   parameters = [(''short_period'', short_p), (''long_period'', long_p),
                                 (''min_candles_after_cross'', min_candles)],
                   short_period = short_p, long_period = long_p,
                   min_candles_after_cross = min_candles,
                   data = None, signals = None \<rparr>
      in if short_p \<ge> long_p then Inl ValueError else Inr self)"

subsection \<open>load\_data\<close>

definition required_columns :: "string list" where
  "required_columns = [''time'', ''open'', ''high'', ''low'', ''close'', ''volume'']"

text \<open>
  \<open>load_data(data)\<close>, \<open>data\<close> being the caller's object at address \<open>a\<close>:
  \<open>data.copy()\<close> is a new object, and so is the sorted frame that
  \<open>self.data\<close> refers to in the end.
\<close>

definition load_data :: "store \<Rightarrow> strategy \<Rightarrow> addr \<Rightarrow> error + store \<times> strategy" where
  "load_data h self a =
     (if \<not> list_all (has_column (h ! a)) required_columns then Inl ValueError
      else
        let h1 = h @ [h ! a]; copy = length h
        in case sort_values_time (h1 ! copy) of
             Inl e \<Rightarrow> Inl e
           | Inr sorted_df \<Rightarrow> Inr (h1 @ [sorted_df], self\<lparr>data := Some (length h1)\<rparr>))"

subsection \<open>calculate\_indicators\<close>

text \<open>\<open>df.loc[mask, col] = v\<close> on one column.\<close>

definition assign_where :: "bool list \<Rightarrow> 'a \<Rightarrow> 'a list \<Rightarrow> 'a list" where
  "assign_where cond v xs = map (\<lambda>(m, x). if m then v else x) (zip cond xs)"

definition golden_mask :: "series \<Rightarrow> bool list" where
  "golden_mask sma_diff =
     map (\<lambda>(d, prev). nan_lt (Some 0) d \<and> nan_le prev (Some 0)) (zip sma_diff (shift1 sma_diff))"

definition death_mask :: "series \<Rightarrow> bool list" where
  "death_mask sma_diff =
     map (\<lambda>(d, prev). nan_lt d (Some 0) \<and> nan_le (Some 0) prev) (zip sma_diff (shift1 sma_diff))"

definition crossovers :: "series \<Rightarrow> int list" where
  "crossovers sma_diff =
     assign_where (death_mask sma_diff) (-1)
       (assign_where (golden_mask sma_diff) 1 (replicate (length sma_diff) 0))"

definition calculate_indicators :: "int \<Rightarrow> int \<Rightarrow> frame \<Rightarrow> error + frame" where
  "calculate_indicators short_p long_p df =
     (case c_close df of
        None \<Rightarrow> Inl KeyError
      | Some close \<Rightarrow>
         (case sma (map Some close) short_p of
            Inl e \<Rightarrow> Inl e
          | Inr sma_short \<Rightarrow>
             (case sma (map Some close) long_p of
                Inl e \<Rightarrow> Inl e
              | Inr sma_long \<Rightarrow>
                 (let sma_diff = series_sub sma_short sma_long
                  in Inr (df\<lparr> c_sma_short := Some sma_short,
                              c_sma_long := Some sma_long,
                              c_sma_diff := Some sma_diff,
                              c_crossover := Some (crossovers sma_diff) \<rparr>)))))"

subsection \<open>generate\_signals\<close>

text \<open>
  The body of \<open>for i in range(len(self.data))\<close>, on the signal column.  A column is
  looked up when the loop reads it, and a missing one is a KeyError there.
\<close>

definition confirm_row :: "frame \<Rightarrow> nat \<Rightarrow> nat \<Rightarrow> int list \<Rightarrow> error + int list" where
  "confirm_row df k i signal =
     (case c_crossover df of
        None \<Rightarrow> Inl KeyError
      | Some crossover \<Rightarrow>
         if crossover ! i \<noteq> 0 then
           if i + k < nrows df then
             let future_idx = i + k
             in if crossover ! i = 1 then
                  (case (c_sma_short df, c_sma_long df) of
                     (Some sma_short, Some sma_long) \<Rightarrow>
                       Inr (if nan_lt (sma_long ! future_idx) (sma_short ! future_idx)
                            then signal[future_idx := 1] else signal)
                   | _ \<Rightarrow> Inl KeyError)
                else if crossover ! i = -1 then
                  (case (c_sma_short df, c_sma_long df) of
                     (Some sma_short, Some sma_long) \<Rightarrow>
                       Inr (if nan_lt (sma_short ! future_idx) (sma_long ! future_idx)
                            then signal[future_idx := -1] else signal)
                   | _ \<Rightarrow> Inl KeyError)
                else Inr signal
           else Inr signal
         else Inr signal)"

fun confirm_loop :: "frame \<Rightarrow> nat \<Rightarrow> nat list \<Rightarrow> int list \<Rightarrow> error + int list" where
  "confirm_loop df k [] signal = Inr signal"
| "confirm_loop df k (i # rest) signal =
     (case confirm_row df k i signal of
        Inl e \<Rightarrow> Inl e
      | Inr signal' \<Rightarrow> confirm_loop df k rest signal')"

text \<open>The signal column: \<open>self.data['signal'] = 0\<close>, then the loop or the copy of the
  crossover column.\<close>

definition signal_column :: "int \<Rightarrow> frame \<Rightarrow> error + int list" where
  "signal_column min_candles df =
     (if min_candles > 1
      then confirm_loop df (nat min_candles) [0..<nrows df] (replicate (nrows df) 0)
      else (case c_crossover df of
              None \<Rightarrow> Inl KeyError
            | Some crossover \<Rightarrow> Inr crossover))"

definition strength :: "real option \<times> real \<Rightarrow> fl" where
  "strength dc =
     (case fst dc of None \<Rightarrow> NaN | Some d \<Rightarrow> fl_scale (np_div \<bar>d\<bar> (snd dc)) 100)"

definition generate_signals :: "int \<Rightarrow> frame \<Rightarrow> error + frame" where
  "generate_signals min_candles df =
     (case signal_column min_candles df of
        Inl e \<Rightarrow> Inl e
      | Inr signal \<Rightarrow>
         (case (c_sma_diff df, c_close df) of
            (Some sma_diff, Some close) \<Rightarrow>
              Inr (df\<lparr> c_signal := Some signal,
                        c_signal_strength := Some (map strength (zip sma_diff close)) \<rparr>)
          | _ \<Rightarrow> Inl KeyError))"

subsection \<open>run\<close>

text \<open>
  \<open>calculate_indicators\<close> and \<open>generate_signals\<close> change the object \<open>self.data\<close>
  in place and return it, so \<open>run\<close> leaves \<open>self.data\<close> where it was and makes
  \<open>self.signals\<close> the same reference.
\<close>

definition run :: "store \<Rightarrow> strategy \<Rightarrow> error + store \<times> strategy" where
  "run h self =
     (case data self of
        None \<Rightarrow> Inl ValueError
      | Some a \<Rightarrow>
         (case calculate_indicators (short_period self) (long_period self) (h ! a) of
            Inl e \<Rightarrow> Inl e
          | Inr df1 \<Rightarrow>
             (case generate_signals (min_candles_after_cross self) df1 of
                Inl e \<Rightarrow> Inl e
              | Inr df2 \<Rightarrow> Inr (h[a := df2], self\<lparr>signals := Some a\<rparr>))))"

subsection \<open>Queries\<close>

text \<open>\<open>get_all_signals(signal_type)\<close> returns a filtered copy of \<open>self.signals\<close>.\<close>

definition get_all_signals :: "store \<Rightarrow> strategy \<Rightarrow> int option \<Rightarrow> error + frame" where
  "get_all_signals h self signal_type =
     (case signals self of
        None \<Rightarrow> Inr empty_frame
      | Some sa \<Rightarrow>
         (case c_signal (h ! sa) of
            None \<Rightarrow> Inl KeyError
          | Some sg \<Rightarrow>
             (case signal_type of
                Some t \<Rightarrow> Inr (select_rows (mask_rows (\<lambda>x. x = t) sg) (h ! sa))
              | None \<Rightarrow> Inr (select_rows (mask_rows (\<lambda>x. x \<noteq> 0) sg) (h ! sa)))))"

record signal_counts =
  sc_total :: nat
  sc_buy :: nat
  sc_sell :: nat
  sc_buy_percentage :: real
  sc_sell_percentage :: real

record strategy_summary =
  strategy_name :: string
  summary_parameters :: "(string \<times> int) list"
  data_points :: nat
  date_range :: "int option \<times> int option"
  summary_signals :: signal_counts

text \<open>\<open>Series.min()\<close> and \<open>Series.max()\<close> of a time column; NaT (\<open>None\<close>) when it is
  empty.\<close>

fun time_min :: "int list \<Rightarrow> int option" where
  "time_min [] = None"
| "time_min (t # ts) = Some (fold min ts t)"

fun time_max :: "int list \<Rightarrow> int option" where
  "time_max [] = None"
| "time_max (t # ts) = Some (fold max ts t)"

text \<open>\<open>get_summary\<close>; the empty dict \<open>{}\<close> is \<open>None\<close>.\<close>

definition get_summary :: "store \<Rightarrow> strategy \<Rightarrow> error + strategy_summary option" where
  "get_summary h self =
     (case signals self of
        None \<Rightarrow> Inr None
      | Some sa \<Rightarrow>
         (case c_signal (h ! sa) of
            None \<Rightarrow> Inl KeyError
          | Some sg \<Rightarrow>
             (let buy_signals = length (filter (\<lambda>x. x = 1) sg);
                  sell_signals = length (filter (\<lambda>x. x = -1) sg);
                  total_signals = buy_signals + sell_signals;
                  counts = \<lparr> sc_total = total_signals, sc_buy = buy_signals,
                             sc_sell = sell_signals,
                             sc_buy_percentage =
                               (if total_signals > 0
                                then real buy_signals / real total_signals * 100 else 0),
                             sc_sell_percentage =
                               (if total_signals > 0
                                then real sell_signals / real total_signals * 100 else 0) \<rparr>
              in case data self of
                   None \<Rightarrow>
                     Inr (Some \<lparr> strategy_name = name self,
                                 summary_parameters = parameters self,
                                 data_points = 0, date_range = (None, None),
                                 summary_signals = counts \<rparr>)
                 | Some a \<Rightarrow>
                    (case c_time (h ! a) of
                       None \<Rightarrow> Inl KeyError
                     | Some ts \<Rightarrow>
                         Inr (Some \<lparr> strategy_name = name self,
                                     summary_parameters = parameters self,
                                     data_points = nrows (h ! a),
                                     date_range = (time_min ts, time_max ts),
                                     summary_signals = counts \<rparr>)))))"

text \<open>\<open>export_signals(filepath)\<close>; the result is the frame written to the file.\<close>

definition export_signals :: "store \<Rightarrow> strategy \<Rightarrow> error + frame" where
  "export_signals h self =
     (case signals self of
        None \<Rightarrow> Inl ValueError
      | Some sa \<Rightarrow>
         (case c_signal (h ! sa) of
            None \<Rightarrow> Inl KeyError
          | Some sg \<Rightarrow> Inr (select_rows (mask_rows (\<lambda>x. x \<noteq> 0) sg) (h ! sa))))"

text \<open>
  \<open>get_entry_exit_pairs\<close> reads \<open>self.data\<close>, not \<open>self.signals\<close>: subscripting
  \<open>None\<close> is a TypeError, a missing \<open>signal\<close> column a KeyError.  The columns
  \<open>close\<close> and \<open>time\<close> are first read at the first row whose signal is 1 or -1.
  An exit from a position entered at price zero raises ZeroDivisionError.
\<close>

definition signal_rows :: "int list \<Rightarrow> real list \<Rightarrow> int list \<Rightarrow> sigrow list" where
  "signal_rows ts cl sg =
     map (\<lambda>(t, c, s). \<lparr> r_time = t, r_close = c, r_signal = s \<rparr>) (zip ts (zip cl sg))"

definition get_entry_exit_pairs :: "store \<Rightarrow> strategy \<Rightarrow> error + trade list" where
  "get_entry_exit_pairs h self =
     (case data self of
        None \<Rightarrow> Inl TypeError
      | Some a \<Rightarrow>
         (case c_signal (h ! a) of
            None \<Rightarrow> Inl KeyError
          | Some sg \<Rightarrow>
             (case (c_time (h ! a), c_close (h ! a)) of
                (Some ts, Some cl) \<Rightarrow> entry_exit_pairs (signal_rows ts cl sg)
              | _ \<Rightarrow> if list_ex (\<lambda>x. x = 1 \<or> x = -1) sg then Inl KeyError else Inr [])))"

definition get_performance_summary :: "store \<Rightarrow> strategy \<Rightarrow> error + summary" where
  "get_performance_summary h self =
     (case get_entry_exit_pairs h self of
        Inl e \<Rightarrow> Inl e
      | Inr trades \<Rightarrow> Inr (summarize trades))"

section \<open>Auxiliary definitions and concrete inputs\<close>

definition breakeven_rows :: "sigrow list" where
  "breakeven_rows =
     [\<lparr> r_time = 0, r_close = 1, r_signal = 1 \<rparr>,
      \<lparr> r_time = 1, r_close = 1, r_signal = -1 \<rparr>]"

definition mixed_rows :: "sigrow list" where
  "mixed_rows =
     [\<lparr> r_time = 0, r_close = 1, r_signal = 1 \<rparr>,
      \<lparr> r_time = 1, r_close = 2, r_signal = -1 \<rparr>,
      \<lparr> r_time = 2, r_close = 3, r_signal = 1 \<rparr>]"

definition breakeven_trades :: "trade list" where
  "breakeven_trades =
     [\<lparr> entry_time = 0, entry_price = 1, exit_time = 1, exit_price = 1,
        position_type = Long, pips_profit = 0, percent_profit = Fin 0 \<rparr>]"

definition mixed_trades :: "trade list" where
  "mixed_trades =
     [\<lparr> entry_time = 0, entry_price = 1, exit_time = 1, exit_price = 2,
        position_type = Long, pips_profit = 10000, percent_profit = Fin 100 \<rparr>,
      \<lparr> entry_time = 1, entry_price = 2, exit_time = 2, exit_price = 3,
        position_type = Short, pips_profit = - 10000, percent_profit = Fin (- 50) \<rparr>]"

text \<open>A buy at price zero, then a sell.\<close>

definition zero_entry_rows :: "sigrow list" where
  "zero_entry_rows =
     [\<lparr> r_time = 0, r_close = 0, r_signal = 1 \<rparr>,
      \<lparr> r_time = 1, r_close = 1, r_signal = -1 \<rparr>]"

text \<open>The signal value of a held direction.\<close>

fun direction :: "position \<Rightarrow> int" where
  "direction Long = 1" | "direction Short = -1"

definition alternating_rows :: "sigrow list" where
  "alternating_rows =
     [\<lparr> r_time = 0, r_close = 1, r_signal = 1 \<rparr>,
      \<lparr> r_time = 1, r_close = 2, r_signal = 0 \<rparr>,
      \<lparr> r_time = 2, r_close = 3, r_signal = -1 \<rparr>,
      \<lparr> r_time = 3, r_close = 2, r_signal = 1 \<rparr>,
      \<lparr> r_time = 4, r_close = 2, r_signal = 0 \<rparr>,
      \<lparr> r_time = 5, r_close = 4, r_signal = -1 \<rparr>,
      \<lparr> r_time = 6, r_close = 1, r_signal = 1 \<rparr>]"

text \<open>The value the confirmation loop has written at index \<open>j\<close> once the indices below
  \<open>m\<close> are processed: only the crossover \<open>k\<close> candles before \<open>j\<close> writes there.\<close>

definition confirmed_at :: "int list \<Rightarrow> series \<Rightarrow> series \<Rightarrow> nat \<Rightarrow> nat \<Rightarrow> nat \<Rightarrow> int" where
  "confirmed_at crossover sma_short sma_long k m j =
     (if k \<le> j \<and> j - k < m \<and> crossover ! (j - k) = 1 \<and> nan_lt (sma_long ! j) (sma_short ! j) then 1
      else if k \<le> j \<and> j - k < m \<and> crossover ! (j - k) = -1 \<and> nan_lt (sma_short ! j) (sma_long ! j) then -1
      else 0)"

definition example_closes :: "real list" where
  "example_closes = [1, 1, 1, 2, 3, 4]"

definition example_frame :: frame where
  "example_frame = empty_frame \<lparr> nrows := 6, c_time := Some [0, 1, 2, 3, 4, 5],
     c_open := Some example_closes, c_high := Some example_closes, c_low := Some example_closes,
     c_close := Some example_closes, c_volume := Some [0, 0, 0, 0, 0, 0] \<rparr>"

text \<open>The confirmation modes the specification names are
  \<open>min_candles_after_cross = 1\<close> and \<open>min_candles_after_cross > 1\<close>; the code has no notion
  of a valid lag.\<close>

definition spec_valid_lag :: "int \<Rightarrow> bool" where
  "spec_valid_lag k = (k \<ge> 1)"

definition example_indicator_frame :: frame where
  "example_indicator_frame = example_frame \<lparr>
        c_sma_short := Some [Some 1, Some 1, Some 1, Some 2, Some 3, Some 4],
        c_sma_long := Some [None, Some 1, Some 1, Some (3 / 2), Some (5 / 2), Some (7 / 2)],
        c_sma_diff := Some [None, Some 0, Some 0, Some (1 / 2), Some (1 / 2), Some (1 / 2)],
        c_crossover := Some [0, 0, 0, 1, 0, 0] \<rparr>"

definition fresh_strategy :: strategy where
  "fresh_strategy =
     \<lparr> name = ''SMA_Crossover'',
       parameters = [(''short_period'', 1), (''long_period'', 2),
                     (''min_candles_after_cross'', 2)],
       short_period = 1, long_period = 2, min_candles_after_cross = 2,
       data = None, signals = None \<rparr>"

text \<open>A frame that carries a \<open>signal\<close> column when it is loaded, as a file written
  by \<open>export_signals\<close> does.\<close>

definition signal_frame :: frame where
  "signal_frame = empty_frame \<lparr> nrows := 2, c_time := Some [0, 1],
     c_open := Some [1, 2], c_high := Some [1, 2], c_low := Some [1, 2],
     c_close := Some [1, 2], c_volume := Some [0, 0], c_signal := Some [1, -1] \<rparr>"

text \<open>The candles of a frame that has the six required columns, row by row.\<close>

definition candles :: "frame \<Rightarrow> (int \<times> real \<times> real \<times> real \<times> real \<times> int) list" where
  "candles df =
     (case (c_time df, c_open df, c_high df, c_low df, c_close df, c_volume df) of
        (Some t, Some o', Some hi, Some lo, Some cl, Some v) \<Rightarrow>
           zip t (zip o' (zip hi (zip lo (zip cl v))))
      | _ \<Rightarrow> [])"

definition unsorted_frame :: frame where
  "unsorted_frame = empty_frame \<lparr> nrows := 3, c_time := Some [2, 0, 1],
     c_open := Some [3, 1, 2], c_high := Some [3, 1, 2], c_low := Some [3, 1, 2],
     c_close := Some [3, 1, 2], c_volume := Some [30, 10, 20] \<rparr>"

definition sorted_frame :: frame where
  "sorted_frame = empty_frame \<lparr> nrows := 3, c_time := Some [0, 1, 2],
     c_open := Some [1, 2, 3], c_high := Some [1, 2, 3], c_low := Some [1, 2, 3],
     c_close := Some [1, 2, 3], c_volume := Some [10, 20, 30] \<rparr>"

text \<open>A series without NaN.\<close>

definition nan_free :: "series \<Rightarrow> bool" where
  "nan_free xs = list_all (\<lambda>x. x \<noteq> None) xs"

definition example_prices :: series where
  "example_prices = [Some 1, Some 2, Some 1, Some 3]"

section \<open>Properties of the performance summary\<close>

lemma filter_two_lt:
  assumes "t \<in> set xs" "\<not> P t" "\<not> Q t" "\<And>x. \<not> (P x \<and> Q x)"
  shows "length (filter P xs) + length (filter Q xs) < length xs"
proof -
  have le: "length (filter P ys) + length (filter Q ys) \<le> length ys" for ys
    using assms(4) by (induction ys) auto
  from assms(1) show ?thesis
  proof (induction xs)
    case Nil then show ?case by simp
  next
    case (Cons x xs)
    show ?case
    proof (cases "x = t")
      case True
      then show ?thesis using le [of xs] assms(2,3) by simp
    next
      case False
      with Cons have "length (filter P xs) + length (filter Q xs) < length xs" by simp
      then show ?thesis using assms(4) [of x] by auto
    qed
  qed
qed

lemma sum_list_neg:
  "xs \<noteq> [] \<Longrightarrow> \<forall>x\<in>set xs. x < (0::real) \<Longrightarrow> sum_list xs < 0"
  by (induction xs) (auto intro: add_neg_nonpos simp: less_imp_le dest: meta_mp)

lemma pips_sum_losers_neg: "losers trades \<noteq> [] \<Longrightarrow> pips_sum (losers trades) < 0"
  unfolding pips_sum_def
  by (rule sum_list_neg) (auto simp: losers_def)

lemma breakeven_ledger: "entry_exit_pairs breakeven_rows = Inr breakeven_trades"
  by (simp add: entry_exit_pairs_def breakeven_rows_def nonzero_signals_def run_rows_def
      long_trade_def py_div_def breakeven_trades_def)

lemma mixed_ledger: "entry_exit_pairs mixed_rows = Inr mixed_trades"
  by (simp add: entry_exit_pairs_def mixed_rows_def nonzero_signals_def run_rows_def
      long_trade_def short_trade_def py_div_def mixed_trades_def)

lemma breakeven_summary:
  "summarize breakeven_trades = Metrics
     \<lparr> total_trades = 1, winning_trades = 0, losing_trades = 0, win_rate = 0,
       total_pips = 0, average_pips_per_trade = 0, best_trade_pips = 0,
       worst_trade_pips = 0, average_win_pips = 0, average_loss_pips = 0,
       profit_factor = PInf, total_return_percent = Fin 0 \<rparr>"
  unfolding breakeven_trades_def summarize_def
  by (simp add: Let_def winners_def losers_def pips_sum_def pips_mean_def sum_skipna_def)

text \<open>
  C10.  A completed trade whose \<open>pips_profit\<close> is exactly zero is counted in
  \<open>total_trades\<close> and is neither a winning nor a losing trade, so the winning and
  losing counts add up to less than \<open>total_trades\<close>; \<open>win_rate\<close> still divides the
  winning count by \<open>total_trades\<close>.
\<close>

theorem zero_pip_trade_counted_only_in_total:
  assumes "t \<in> set trades" and "pips_profit t = 0"
  shows "\<exists>p. summarize trades = Metrics p \<and> total_trades p = length trades
     \<and> t \<notin> set (winners trades) \<and> t \<notin> set (losers trades)
     \<and> winning_trades p = length (winners trades)
     \<and> losing_trades p = length (losers trades)
     \<and> winning_trades p + losing_trades p < total_trades p
     \<and> win_rate p = real (winning_trades p) / real (total_trades p) * 100"
proof -
  have ne: "trades \<noteq> []" using assms(1) by auto
  have lt: "length (winners trades) + length (losers trades) < length trades"
    unfolding winners_def losers_def
    by (rule filter_two_lt [OF assms(1)]) (use assms(2) in auto)
  show ?thesis using ne lt assms(2)
    by (simp add: summarize_def Let_def winners_def losers_def)
qed

theorem zero_pip_trade_counted_only_in_total_witness:
  "entry_exit_pairs breakeven_rows = Inr breakeven_trades \<and>
   (\<exists>p. summarize breakeven_trades = Metrics p
     \<and> total_trades p = 1 \<and> winning_trades p + losing_trades p < total_trades p
     \<and> win_rate p = real (winning_trades p) / real (total_trades p) * 100)"
proof -
  let ?t = "\<lparr> entry_time = 0, entry_price = 1, exit_time = 1, exit_price = 1,
        position_type = Long, pips_profit = 0, percent_profit = Fin 0 \<rparr>"
  have a: "?t \<in> set breakeven_trades" by (simp add: breakeven_trades_def)
  have b: "pips_profit ?t = 0" by simp
  have l: "length breakeven_trades = 1" by (simp add: breakeven_trades_def)
  from zero_pip_trade_counted_only_in_total [OF a b] show ?thesis
    using l breakeven_ledger by auto
qed

text \<open>
  C1, as the code has it.  On a non-empty ledger \<open>profit_factor\<close> is the infinity
  exactly when the ledger has no losing trade, which is exactly when the sum of the losing
  pips is zero, whether or not a trade is winning; with a losing trade it is the absolute
  value of the winning sum over the losing sum.
\<close>

theorem profit_factor_infinite_iff_no_losing_trade:
  assumes "trades \<noteq> []"
  shows "\<exists>p. summarize trades = Metrics p
     \<and> (profit_factor p = PInf \<longleftrightarrow> losers trades = [])
     \<and> (losers trades = [] \<longleftrightarrow> pips_sum (losers trades) = 0)
     \<and> (losers trades \<noteq> [] \<longrightarrow>
          profit_factor p = Fin \<bar>pips_sum (winners trades) / pips_sum (losers trades)\<bar>)"
proof (cases "losers trades = []")
  case True
  then show ?thesis using assms by (simp add: summarize_def Let_def pips_sum_def)
next
  case False
  then have "pips_sum (losers trades) < 0" by (rule pips_sum_losers_neg)
  then show ?thesis using assms False by (simp add: summarize_def Let_def)
qed

theorem profit_factor_infinite_iff_no_losing_trade_witness:
  "entry_exit_pairs mixed_rows = Inr mixed_trades \<and>
   mixed_trades \<noteq> [] \<and> losers mixed_trades \<noteq> [] \<and>
   (\<exists>p. summarize mixed_trades = Metrics p
      \<and> profit_factor p \<noteq> PInf
      \<and> profit_factor p = Fin \<bar>pips_sum (winners mixed_trades)
                                  / pips_sum (losers mixed_trades)\<bar>)"
proof -
  have ne: "mixed_trades \<noteq> []" by (simp add: mixed_trades_def)
  have lo: "losers mixed_trades \<noteq> []"
    by (simp add: mixed_trades_def losers_def)
  from profit_factor_infinite_iff_no_losing_trade [OF ne] show ?thesis
    using ne lo mixed_ledger by auto
qed

text \<open>
  C1 as stated fails on a ledger whose only trade breaks even: there is no winning
  trade, and \<open>profit_factor\<close> is the infinity all the same.
\<close>

theorem profit_factor_breakeven_counterexample:
  "entry_exit_pairs breakeven_rows = Inr breakeven_trades \<and>
   breakeven_trades \<noteq> [] \<and>
   winners breakeven_trades = [] \<and>
   summarize breakeven_trades = Metrics
     \<lparr> total_trades = 1, winning_trades = 0, losing_trades = 0, win_rate = 0,
       total_pips = 0, average_pips_per_trade = 0, best_trade_pips = 0,
       worst_trade_pips = 0, average_win_pips = 0, average_loss_pips = 0,
       profit_factor = PInf, total_return_percent = Fin 0 \<rparr>"
proof (intro conjI)
  show "entry_exit_pairs breakeven_rows = Inr breakeven_trades" by (rule breakeven_ledger)
  show "breakeven_trades \<noteq> []" by (simp add: breakeven_trades_def)
  show "winners breakeven_trades = []"
    by (simp add: breakeven_trades_def winners_def)
  show "summarize breakeven_trades = Metrics
     \<lparr> total_trades = 1, winning_trades = 0, losing_trades = 0, win_rate = 0,
       total_pips = 0, average_pips_per_trade = 0, best_trade_pips = 0,
       worst_trade_pips = 0, average_win_pips = 0, average_loss_pips = 0,
       profit_factor = PInf, total_return_percent = Fin 0 \<rparr>"
    by (rule breakeven_summary)
qed

section \<open>Properties of the trade reconstruction\<close>

lemma run_loop_append:
  "run_loop (xs @ ys) st =
     (case run_loop xs st of Inl e \<Rightarrow> Inl e | Inr st' \<Rightarrow> run_loop ys st')"
  by (induction xs arbitrary: st) (simp_all split: sum.splits)

lemma run_rows_snoc:
  "run_rows (sigs @ [row]) =
     (case run_rows sigs of Inl e \<Rightarrow> Inl e | Inr st \<Rightarrow> process_row row st)"
  by (simp add: run_rows_def run_loop_append split: sum.splits)

lemma process_row_zero_entry_price:
  "r_signal row = -1 \<Longrightarrow> process_row row (Some (Long, 0, et), trades) = Inl ZeroDivisionError"
  "r_signal row = 1 \<Longrightarrow> process_row row (Some (Short, 0, et), trades) = Inl ZeroDivisionError"
  by (simp_all add: long_trade_def short_trade_def py_div_def)

lemma zero_entry_price_raises: "entry_exit_pairs zero_entry_rows = Inl ZeroDivisionError"
  by (simp add: entry_exit_pairs_def zero_entry_rows_def nonzero_signals_def run_rows_def
      long_trade_def py_div_def)

lemma run_loop_open:
  assumes "list_all (\<lambda>r. r_signal r = 1 \<or> r_signal r = -1) sigs"
    and "list_all (\<lambda>r. r_close r \<noteq> 0) sigs" and "ep \<noteq> 0"
  shows "\<exists>pos' ep' et' new.
           run_loop sigs (Some (pos, ep, et), trades) = Inr (Some (pos', ep', et'), trades @ new)
         \<and> length new = length (remdups_adj (direction pos # map r_signal sigs)) - 1
         \<and> direction pos' = last (direction pos # map r_signal sigs)"
  using assms
proof (induction sigs arbitrary: pos ep et trades)
  case Nil
  then show ?case by simp
next
  case (Cons r rs)
  then have r: "r_signal r = 1 \<or> r_signal r = -1"
    and rs: "list_all (\<lambda>r. r_signal r = 1 \<or> r_signal r = -1) rs"
    and c: "r_close r \<noteq> 0" and cs: "list_all (\<lambda>r. r_close r \<noteq> 0) rs"
    by simp_all
  show ?case
  proof (cases "r_signal r = direction pos")
    case True
    then have st: "process_row r (Some (pos, ep, et), trades) = Inr (Some (pos, ep, et), trades)"
      by (cases pos) auto
    from Cons.IH [OF rs cs Cons.prems(3), of pos et trades] True st show ?thesis by simp
  next
    case False
    obtain pos2 tr where
      st: "process_row r (Some (pos, ep, et), trades)
             = Inr (Some (pos2, r_close r, r_time r), trades @ [tr])"
      and d2: "direction pos2 = r_signal r"
      using False r Cons.prems(3)
      by (cases pos) (auto simp: long_trade_def short_trade_def py_div_def)
    from Cons.IH [OF rs cs c, of pos2 "r_time r" "trades @ [tr]"]
    obtain pos' ep' et' new where
      f: "run_loop rs (Some (pos2, r_close r, r_time r), trades @ [tr])
            = Inr (Some (pos', ep', et'), (trades @ [tr]) @ new)"
      and l: "length new = length (remdups_adj (direction pos2 # map r_signal rs)) - 1"
      and d: "direction pos' = last (direction pos2 # map r_signal rs)" by blast
    have "run_loop (r # rs) (Some (pos, ep, et), trades)
            = Inr (Some (pos', ep', et'), trades @ (tr # new))"
      using st f by simp
    moreover have "length (tr # new)
        = length (remdups_adj (direction pos # map r_signal (r # rs))) - 1"
      using l d2 False
      by (simp add: Suc_diff_le Suc_leI
          remdups_adj_length_ge1 [of "r_signal r # map r_signal rs"])
    moreover have "direction pos' = last (direction pos # map r_signal (r # rs))"
      using d d2 by simp
    ultimately show ?thesis by blast
  qed
qed

lemma nonzero_pm:
  assumes "list_all (\<lambda>r. r_signal r \<in> {-1, 0, 1}) rows"
  shows "list_all (\<lambda>r. r_signal r = 1 \<or> r_signal r = -1) (nonzero_signals rows)"
  using assms by (induction rows) (auto simp: nonzero_signals_def)

lemma run_rows_count:
  assumes "list_all (\<lambda>r. r_signal r = 1 \<or> r_signal r = -1) sigs"
    and "list_all (\<lambda>r. r_close r \<noteq> 0) sigs"
  shows "\<exists>st. run_rows sigs = Inr st
       \<and> length (snd st) = length (remdups_adj (map r_signal sigs)) - 1
       \<and> (fst st = None \<longleftrightarrow> sigs = [])"
proof (cases sigs)
  case Nil
  then show ?thesis by (simp add: run_rows_def)
next
  case (Cons r rs)
  with assms have r: "r_signal r = 1 \<or> r_signal r = -1"
    and rs: "list_all (\<lambda>r. r_signal r = 1 \<or> r_signal r = -1) rs"
    and c: "r_close r \<noteq> 0" and cs: "list_all (\<lambda>r. r_close r \<noteq> 0) rs" by simp_all
  obtain pos where st: "process_row r (None, []) = Inr (Some (pos, r_close r, r_time r), [])"
    and d: "direction pos = r_signal r"
    using r by (cases "r_signal r = 1") auto
  from run_loop_open [OF rs cs c, of pos "r_time r" "[]"]
  obtain pos' ep' et' new where
    f: "run_loop rs (Some (pos, r_close r, r_time r), []) = Inr (Some (pos', ep', et'), [] @ new)"
    and l: "length new = length (remdups_adj (direction pos # map r_signal rs)) - 1" by blast
  have "run_rows sigs = Inr (Some (pos', ep', et'), new)"
    using Cons st f by (simp add: run_rows_def)
  then show ?thesis using l d Cons by simp
qed

lemma entry_exit_pairs_run_rows:
  assumes "run_rows (nonzero_signals rows) = Inr st"
  shows "entry_exit_pairs rows = Inr (snd st)"
proof (cases "nonzero_signals rows")
  case Nil
  with assms show ?thesis by (auto simp: entry_exit_pairs_def run_rows_def)
next
  case (Cons r rs)
  with assms show ?thesis by (simp add: entry_exit_pairs_def)
qed

text \<open>
  C2.  \<open>get_entry_exit_pairs\<close> runs \<open>process_row\<close> over the rows with a non-zero
  signal, in index order, from the flat state with an empty ledger.  While flat, a buy
  or sell signal opens a long or short position at the row's close and time and records
  nothing; a signal against the held direction appends one trade, from the entry to this
  row, and holds the reverse position entered at this row's close and time; a signal in
  the held direction changes nothing.  The ledger therefore has one trade per change of
  direction in the signal sequence, and the position that is open after the last signal
  (there is one as soon as there is a signal) is not in it: the signals
  \<open>[1, -1, 1, -1, 1]\<close> give four trades.  Signals are -1, 0 or 1 and the closes of the
  signal rows are not zero (candle prices are positive); an exit from a position entered
  at price zero raises ZeroDivisionError instead.
\<close>

theorem entry_exit_pairs_state_machine:
  fixes rows rows5 :: "sigrow list" and buy sell :: sigrow
  assumes "list_all (\<lambda>r. r_signal r \<in> {-1, 0, 1}) rows"
    and "list_all (\<lambda>r. r_close r \<noteq> 0) (nonzero_signals rows)"
    and "r_signal buy = 1" and "r_signal sell = -1" and "ep \<noteq> 0"
    and "map r_signal (nonzero_signals rows5) = [1, -1, 1, -1, 1]"
    and "list_all (\<lambda>r. r_close r \<noteq> 0) (nonzero_signals rows5)"
  shows "(\<exists>st. run_rows (nonzero_signals rows) = Inr st
            \<and> entry_exit_pairs rows = Inr (snd st)
            \<and> length (snd st) = length (remdups_adj (map r_signal (nonzero_signals rows))) - 1
            \<and> (fst st = None \<longleftrightarrow> nonzero_signals rows = []))
    \<and> run_rows [] = Inr (None, [])
    \<and> run_rows (sigs @ [row]) =
         (case run_rows sigs of Inl e \<Rightarrow> Inl e | Inr st \<Rightarrow> process_row row st)
    \<and> process_row buy (None, trades) = Inr (Some (Long, r_close buy, r_time buy), trades)
    \<and> process_row sell (None, trades) = Inr (Some (Short, r_close sell, r_time sell), trades)
    \<and> process_row sell (Some (Long, ep, et), trades) =
        Inr (Some (Short, r_close sell, r_time sell),
             trades @ [\<lparr> entry_time = et, entry_price = ep, exit_time = r_time sell,
                          exit_price = r_close sell, position_type = Long,
                          pips_profit = (r_close sell - ep) * 10000,
                          percent_profit = Fin ((r_close sell - ep) / ep * 100) \<rparr>])
    \<and> process_row buy (Some (Short, ep, et), trades) =
        Inr (Some (Long, r_close buy, r_time buy),
             trades @ [\<lparr> entry_time = et, entry_price = ep, exit_time = r_time buy,
                          exit_price = r_close buy, position_type = Short,
                          pips_profit = (ep - r_close buy) * 10000,
                          percent_profit = Fin ((ep - r_close buy) / ep * 100) \<rparr>])
    \<and> process_row buy (Some (Long, ep, et), trades) = Inr (Some (Long, ep, et), trades)
    \<and> process_row sell (Some (Short, ep, et), trades) = Inr (Some (Short, ep, et), trades)
    \<and> (\<exists>st5. run_rows (nonzero_signals rows5) = Inr st5
            \<and> entry_exit_pairs rows5 = Inr (snd st5)
            \<and> length (snd st5) = 4 \<and> fst st5 \<noteq> None)"
proof -
  have pm: "list_all (\<lambda>r. r_signal r = 1 \<or> r_signal r = -1) (nonzero_signals rows)"
    using assms(1) by (rule nonzero_pm)
  from run_rows_count [OF pm assms(2)] obtain st where
    st: "run_rows (nonzero_signals rows) = Inr st"
    and cnt: "length (snd st) = length (remdups_adj (map r_signal (nonzero_signals rows))) - 1"
    and op: "fst st = None \<longleftrightarrow> nonzero_signals rows = []" by auto
  have first: "\<exists>st. run_rows (nonzero_signals rows) = Inr st
            \<and> entry_exit_pairs rows = Inr (snd st)
            \<and> length (snd st) = length (remdups_adj (map r_signal (nonzero_signals rows))) - 1
            \<and> (fst st = None \<longleftrightarrow> nonzero_signals rows = [])"
    using st cnt op entry_exit_pairs_run_rows [OF st] by (intro exI [of _ st]) simp
  have pm5: "list_all (\<lambda>r. r_signal r = 1 \<or> r_signal r = -1) (nonzero_signals rows5)"
  proof -
    have "list_all (\<lambda>s. s = 1 \<or> s = -1) (map r_signal (nonzero_signals rows5))"
      unfolding assms(6) by simp
    then show ?thesis by (simp add: list_all_iff)
  qed
  from run_rows_count [OF pm5 assms(7)] obtain st5 where
    st5: "run_rows (nonzero_signals rows5) = Inr st5"
    and cnt5: "length (snd st5) = length (remdups_adj (map r_signal (nonzero_signals rows5))) - 1"
    and op5: "fst st5 = None \<longleftrightarrow> nonzero_signals rows5 = []" by auto
  have l5: "length (snd st5) = 4" using cnt5 unfolding assms(6) by simp
  have o5: "fst st5 \<noteq> None" using op5 assms(6) by auto
  have last: "\<exists>st5. run_rows (nonzero_signals rows5) = Inr st5
            \<and> entry_exit_pairs rows5 = Inr (snd st5)
            \<and> length (snd st5) = 4 \<and> fst st5 \<noteq> None"
    using st5 l5 o5 entry_exit_pairs_run_rows [OF st5] by (intro exI [of _ st5]) simp
  have steps: "run_rows [] = Inr (None, [])"
    "process_row buy (None, trades) = Inr (Some (Long, r_close buy, r_time buy), trades)"
    "process_row sell (None, trades) = Inr (Some (Short, r_close sell, r_time sell), trades)"
    "process_row sell (Some (Long, ep, et), trades) =
        Inr (Some (Short, r_close sell, r_time sell),
             trades @ [\<lparr> entry_time = et, entry_price = ep, exit_time = r_time sell,
                          exit_price = r_close sell, position_type = Long,
                          pips_profit = (r_close sell - ep) * 10000,
                          percent_profit = Fin ((r_close sell - ep) / ep * 100) \<rparr>])"
    "process_row buy (Some (Short, ep, et), trades) =
        Inr (Some (Long, r_close buy, r_time buy),
             trades @ [\<lparr> entry_time = et, entry_price = ep, exit_time = r_time buy,
                          exit_price = r_close buy, position_type = Short,
                          pips_profit = (ep - r_close buy) * 10000,
                          percent_profit = Fin ((ep - r_close buy) / ep * 100) \<rparr>])"
    "process_row buy (Some (Long, ep, et), trades) = Inr (Some (Long, ep, et), trades)"
    "process_row sell (Some (Short, ep, et), trades) = Inr (Some (Short, ep, et), trades)"
    using assms(3,4,5)
    by (simp_all add: run_rows_def long_trade_def short_trade_def py_div_def)
  from first last steps run_rows_snoc [of sigs row] show ?thesis by blast
qed

lemma alternating_signals: "map r_signal (nonzero_signals alternating_rows) = [1, -1, 1, -1, 1]"
  by (simp add: alternating_rows_def nonzero_signals_def)

theorem entry_exit_pairs_state_machine_witness:
  "list_all (\<lambda>r. r_signal r \<in> {-1, 0, 1}) alternating_rows
   \<and> list_all (\<lambda>r. r_close r \<noteq> 0) (nonzero_signals alternating_rows)
   \<and> map r_signal (nonzero_signals alternating_rows) = [1, -1, 1, -1, 1]
   \<and> (\<exists>st. run_rows (nonzero_signals alternating_rows) = Inr st
          \<and> entry_exit_pairs alternating_rows = Inr (snd st)
          \<and> length (snd st) = 4 \<and> fst st \<noteq> None)"
proof -
  have a: "list_all (\<lambda>r. r_signal r \<in> {-1, 0, 1}) alternating_rows"
    by (simp add: alternating_rows_def)
  have z: "list_all (\<lambda>r. r_close r \<noteq> 0) (nonzero_signals alternating_rows)"
    by (simp add: alternating_rows_def nonzero_signals_def)
  have b: "r_signal \<lparr> r_time = 0, r_close = 1, r_signal = 1 \<rparr> = 1" by simp
  have c: "r_signal \<lparr> r_time = 2, r_close = 3, r_signal = -1 \<rparr> = -1" by simp
  have e: "(1::real) \<noteq> 0" by simp
  note t = entry_exit_pairs_state_machine [OF a z b c e alternating_signals z,
      where sigs = "[]" and row = "\<lparr> r_time = 0, r_close = 1, r_signal = 1 \<rparr>"
      and trades = "[]" and et = 0]
  have "\<exists>st. run_rows (nonzero_signals alternating_rows) = Inr st
          \<and> entry_exit_pairs alternating_rows = Inr (snd st)
          \<and> length (snd st) = 4 \<and> fst st \<noteq> None"
    using t by blast
  then show ?thesis using a z alternating_signals by blast
qed

section \<open>Properties of the crossover detection and the signals\<close>

lemma confirm_loop_append:
  "confirm_loop df k (xs @ ys) sg =
     (case confirm_loop df k xs sg of Inl e \<Rightarrow> Inl e | Inr sg' \<Rightarrow> confirm_loop df k ys sg')"
  by (induction xs arbitrary: sg) (simp_all split: sum.splits)

lemma confirm_row_cols:
  assumes "c_crossover df = Some c" and "c_sma_short df = Some ss" and "c_sma_long df = Some sl"
  shows "confirm_row df k i sg =
     Inr (if c ! i = 1 \<and> i + k < nrows df \<and> nan_lt (sl ! (i + k)) (ss ! (i + k))
          then sg[i + k := 1]
          else if c ! i = -1 \<and> i + k < nrows df \<and> nan_lt (ss ! (i + k)) (sl ! (i + k))
          then sg[i + k := -1] else sg)"
  using assms by (simp add: confirm_row_def Let_def)

lemma confirm_loop_invariant:
  assumes "c_crossover df = Some c" and "c_sma_short df = Some ss" and "c_sma_long df = Some sl"
    and "m \<le> nrows df"
  shows "\<exists>sg. confirm_loop df k [0..<m] (replicate (nrows df) 0) = Inr sg
       \<and> length sg = nrows df
       \<and> (\<forall>j<nrows df. sg ! j = confirmed_at c ss sl k m j)"
  using assms(4)
proof (induction m)
  case 0
  then show ?case by (simp add: confirmed_at_def)
next
  case (Suc m)
  then obtain sg where run: "confirm_loop df k [0..<m] (replicate (nrows df) 0) = Inr sg"
    and len: "length sg = nrows df"
    and ih: "\<And>j. j < nrows df \<Longrightarrow> sg ! j = confirmed_at c ss sl k m j"
    by auto
  define sg' where "sg' =
     (if c ! m = 1 \<and> m + k < nrows df \<and> nan_lt (sl ! (m + k)) (ss ! (m + k))
      then sg[m + k := 1]
      else if c ! m = -1 \<and> m + k < nrows df \<and> nan_lt (ss ! (m + k)) (sl ! (m + k))
      then sg[m + k := -1] else sg)"
  have step: "confirm_loop df k [0..<Suc m] (replicate (nrows df) 0) = Inr sg'"
    using run confirm_row_cols [OF assms(1,2,3), of k m sg]
    by (simp add: confirm_loop_append sg'_def)
  have len': "length sg' = nrows df" using len by (simp add: sg'_def)
  have "sg' ! j = confirmed_at c ss sl k (Suc m) j" if j: "j < nrows df" for j
  proof (cases "j = m + k")
    case True
    then have old: "sg ! j = 0" using ih [OF j] by (simp add: confirmed_at_def)
    show ?thesis using True j len old by (auto simp: sg'_def confirmed_at_def)
  next
    case False
    then have "sg' ! j = sg ! j" by (auto simp: sg'_def)
    moreover have "confirmed_at c ss sl k (Suc m) j = confirmed_at c ss sl k m j"
      using False by (auto simp: confirmed_at_def less_Suc_eq)
    ultimately show ?thesis using ih [OF j] by simp
  qed
  with step len' show ?case by blast
qed

lemma confirm_row_cong:
  assumes "c_crossover df' = c_crossover df" and "c_sma_short df' = c_sma_short df"
    and "c_sma_long df' = c_sma_long df" and "nrows df' = nrows df"
  shows "confirm_row df' k i sg = confirm_row df k i sg"
  unfolding confirm_row_def assms by (rule refl)

lemma confirm_loop_cong:
  assumes "c_crossover df' = c_crossover df" and "c_sma_short df' = c_sma_short df"
    and "c_sma_long df' = c_sma_long df" and "nrows df' = nrows df"
  shows "confirm_loop df' k xs sg = confirm_loop df k xs sg"
  by (induction xs arbitrary: sg) (simp_all add: confirm_row_cong [OF assms] split: sum.splits)

lemma signal_column_cong:
  assumes "c_crossover df' = c_crossover df" and "c_sma_short df' = c_sma_short df"
    and "c_sma_long df' = c_sma_long df" and "nrows df' = nrows df"
  shows "signal_column k df' = signal_column k df"
  by (simp add: signal_column_def confirm_loop_cong [OF assms] assms)

lemma signal_column_cols:
  assumes "c_crossover df = Some c" and "c_sma_short df = Some ss" and "c_sma_long df = Some sl"
    and "length c = nrows df"
  shows "\<exists>sg. signal_column k df = Inr sg \<and> length sg = nrows df
       \<and> (k \<le> 1 \<longrightarrow> sg = c)
       \<and> (1 < k \<longrightarrow> (\<forall>j<nrows df. sg ! j = confirmed_at c ss sl (nat k) (nrows df) j))"
proof (cases "1 < k")
  case True
  from confirm_loop_invariant [OF assms(1,2,3), of "nrows df" "nat k"] True
  show ?thesis by (auto simp: signal_column_def)
next
  case False
  then show ?thesis using assms(1,4) by (simp add: signal_column_def)
qed

lemma length_rolling_mean [simp]: "length (rolling_mean w m xs) = length xs"
  by (simp add: rolling_mean_def)

lemma length_series_sub [simp]: "length (series_sub xs ys) = min (length xs) (length ys)"
  by (simp add: series_sub_def)

lemma series_sub_nth:
  "i < length xs \<Longrightarrow> i < length ys \<Longrightarrow> series_sub xs ys ! i = nan_sub (xs ! i) (ys ! i)"
  by (simp add: series_sub_def)

lemma length_shift1 [simp]: "length (shift1 xs) = length xs"
  by (simp add: shift1_def)

lemma shift1_nth:
  "i < length xs \<Longrightarrow> shift1 xs ! i = (if i = 0 then None else xs ! (i - 1))"
  by (cases i) (simp_all add: shift1_def)

lemma length_crossovers [simp]: "length (crossovers d) = length d"
  by (simp add: crossovers_def assign_where_def golden_mask_def death_mask_def)

lemma crossovers_nth:
  assumes "i < length d"
  shows "crossovers d ! i =
     (if nan_lt (d ! i) (Some 0) \<and> nan_le (Some 0) (shift1 d ! i) then -1
      else if nan_lt (Some 0) (d ! i) \<and> nan_le (shift1 d ! i) (Some 0) then 1 else 0)"
  using assms
  by (simp add: crossovers_def assign_where_def golden_mask_def death_mask_def)

lemma nan_lt_Some_left: "nan_lt (Some a) x \<longleftrightarrow> (\<exists>b. x = Some b \<and> a < b)"
  by (cases x) auto

lemma nan_lt_Some_right: "nan_lt x (Some b) \<longleftrightarrow> (\<exists>a. x = Some a \<and> a < b)"
  by (cases x) auto

lemma nan_le_Some_left: "nan_le (Some a) x \<longleftrightarrow> (\<exists>b. x = Some b \<and> a \<le> b)"
  by (cases x) auto

lemma nan_le_Some_right: "nan_le x (Some b) \<longleftrightarrow> (\<exists>a. x = Some a \<and> a \<le> b)"
  by (cases x) auto

lemma crossovers_golden:
  assumes "i < length d"
  shows "crossovers d ! i = 1 \<longleftrightarrow>
          0 < i \<and> (\<exists>x p. d ! i = Some x \<and> d ! (i - 1) = Some p \<and> 0 < x \<and> p \<le> 0)"
  using assms
  by (auto simp: crossovers_nth shift1_nth nan_lt_Some_left nan_lt_Some_right
      nan_le_Some_left nan_le_Some_right)

lemma crossovers_death:
  assumes "i < length d"
  shows "crossovers d ! i = -1 \<longleftrightarrow>
          0 < i \<and> (\<exists>x p. d ! i = Some x \<and> d ! (i - 1) = Some p \<and> x < 0 \<and> 0 \<le> p)"
  using assms
  by (auto simp: crossovers_nth shift1_nth nan_lt_Some_left nan_lt_Some_right
      nan_le_Some_left nan_le_Some_right)

lemma crossovers_range:
  assumes "i < length d"
  shows "crossovers d ! i = 0 \<or> crossovers d ! i = 1 \<or> crossovers d ! i = -1"
  using assms by (simp add: crossovers_nth)

lemma crossovers_first_defined:
  assumes "i < length d" and "\<forall>j<i. d ! j = None"
  shows "crossovers d ! i = 0"
proof (cases "i = 0")
  case True
  then show ?thesis using assms(1) by (simp add: crossovers_nth shift1_nth)
next
  case False
  then have "d ! (i - 1) = None" using assms(2) by simp
  then show ?thesis using assms(1) False by (simp add: crossovers_nth shift1_nth)
qed

text \<open>
  C6.  \<open>calculate_indicators\<close> sets \<open>sma_diff\<close> to the short average minus the long
  one, index by index.  The crossover column is 1 at \<open>i\<close> exactly when \<open>sma_diff\<close> is
  defined at \<open>i\<close> and at \<open>i - 1\<close>, positive at \<open>i\<close> and at most zero at \<open>i - 1\<close>;
  it is -1 exactly when both are defined, negative at \<open>i\<close> and at least zero at
  \<open>i - 1\<close>; it is 0 otherwise, in particular at an index with no defined difference
  before it.
\<close>

theorem crossover_marks_sign_change:
  assumes "c_close df = Some close" and "0 \<le> short_p" and "0 \<le> long_p"
  shows "\<exists>df' ss sl diff cross.
      calculate_indicators short_p long_p df = Inr df'
    \<and> c_sma_short df' = Some ss \<and> c_sma_long df' = Some sl
    \<and> c_sma_diff df' = Some diff \<and> c_crossover df' = Some cross
    \<and> sma (map Some close) short_p = Inr ss \<and> sma (map Some close) long_p = Inr sl
    \<and> length diff = length close \<and> length cross = length close
    \<and> (\<forall>i<length close.
          diff ! i = nan_sub (ss ! i) (sl ! i)
        \<and> (cross ! i = 1 \<longleftrightarrow>
             0 < i \<and> (\<exists>x p. diff ! i = Some x \<and> diff ! (i - 1) = Some p \<and> 0 < x \<and> p \<le> 0))
        \<and> (cross ! i = -1 \<longleftrightarrow>
             0 < i \<and> (\<exists>x p. diff ! i = Some x \<and> diff ! (i - 1) = Some p \<and> x < 0 \<and> 0 \<le> p))
        \<and> (cross ! i = 0 \<or> cross ! i = 1 \<or> cross ! i = -1)
        \<and> ((\<forall>j<i. diff ! j = None) \<longrightarrow> cross ! i = 0))"
proof -
  define ss where "ss = rolling_mean (nat short_p) (nat short_p) (map Some close)"
  define sl where "sl = rolling_mean (nat long_p) (nat long_p) (map Some close)"
  define d where "d = series_sub ss sl"
  define df' where "df' = df\<lparr> c_sma_short := Some ss, c_sma_long := Some sl,
                   c_sma_diff := Some d, c_crossover := Some (crossovers d) \<rparr>"
  have s1: "sma (map Some close) short_p = Inr ss" and s2: "sma (map Some close) long_p = Inr sl"
    using assms(2,3) by (simp_all add: sma_def rolling_window_mean_def ss_def sl_def)
  have run: "calculate_indicators short_p long_p df = Inr df'"
    using assms(1) s1 s2 by (simp add: calculate_indicators_def Let_def df'_def d_def)
  have len: "length d = length close" by (simp add: d_def ss_def sl_def)
  have lens: "length ss = length close" "length sl = length close"
    by (simp_all add: ss_def sl_def)
  have pt: "\<forall>i<length close. d ! i = nan_sub (ss ! i) (sl ! i)
        \<and> (crossovers d ! i = 1 \<longleftrightarrow>
             0 < i \<and> (\<exists>x p. d ! i = Some x \<and> d ! (i - 1) = Some p \<and> 0 < x \<and> p \<le> 0))
        \<and> (crossovers d ! i = -1 \<longleftrightarrow>
             0 < i \<and> (\<exists>x p. d ! i = Some x \<and> d ! (i - 1) = Some p \<and> x < 0 \<and> 0 \<le> p))
        \<and> (crossovers d ! i = 0 \<or> crossovers d ! i = 1 \<or> crossovers d ! i = -1)
        \<and> ((\<forall>j<i. d ! j = None) \<longrightarrow> crossovers d ! i = 0)"
  proof (intro allI impI)
    fix i assume "i < length close"
    then have i: "i < length d" using len by simp
    have sub: "d ! i = nan_sub (ss ! i) (sl ! i)"
      unfolding d_def using i lens len by (intro series_sub_nth) simp_all
    show "d ! i = nan_sub (ss ! i) (sl ! i)
        \<and> (crossovers d ! i = 1 \<longleftrightarrow>
             0 < i \<and> (\<exists>x p. d ! i = Some x \<and> d ! (i - 1) = Some p \<and> 0 < x \<and> p \<le> 0))
        \<and> (crossovers d ! i = -1 \<longleftrightarrow>
             0 < i \<and> (\<exists>x p. d ! i = Some x \<and> d ! (i - 1) = Some p \<and> x < 0 \<and> 0 \<le> p))
        \<and> (crossovers d ! i = 0 \<or> crossovers d ! i = 1 \<or> crossovers d ! i = -1)
        \<and> ((\<forall>j<i. d ! j = None) \<longrightarrow> crossovers d ! i = 0)"
      using crossovers_golden [OF i] crossovers_death [OF i] crossovers_range [OF i]
        crossovers_first_defined [OF i] sub
      by blast
  qed
  have cols: "c_sma_short df' = Some ss" "c_sma_long df' = Some sl"
    "c_sma_diff df' = Some d" "c_crossover df' = Some (crossovers d)"
    by (simp_all add: df'_def)
  have lc: "length (crossovers d) = length close" using len by simp
  from run cols s1 s2 len lc pt show ?thesis by blast
qed

lemma example_indicators:
  "calculate_indicators 1 2 example_frame =
     Inr (example_frame \<lparr>
        c_sma_short := Some [Some 1, Some 1, Some 1, Some 2, Some 3, Some 4],
        c_sma_long := Some [None, Some 1, Some 1, Some (3 / 2), Some (5 / 2), Some (7 / 2)],
        c_sma_diff := Some [None, Some 0, Some 0, Some (1 / 2), Some (1 / 2), Some (1 / 2)],
        c_crossover := Some [0, 0, 0, 1, 0, 0] \<rparr>)"
  by code_simp

lemma example_signals:
  "generate_signals 2 example_indicator_frame =
     Inr (example_indicator_frame \<lparr>
        c_signal := Some [0, 0, 0, 0, 0, 1],
        c_signal_strength := Some [NaN, Fin 0, Fin 0, Fin 25, Fin (50 / 3), Fin (25 / 2)] \<rparr>)"
  by code_simp

text \<open>
  C3.  With \<open>min_candles_after_cross = 1\<close> the signal column is the crossover column.
  With \<open>k = min_candles_after_cross > 1\<close>, a golden cross at \<open>i\<close> puts the signal 1 at
  \<open>i + k\<close> when that index is in range and the short average is above the long one
  there, a death cross puts -1 there when the short average is below; if the index is in
  range and the relation does not hold, the signal at \<open>i + k\<close> is 0.  Every non-zero
  signal is the crossover \<open>k\<close> rows earlier, so a crossover leaves nothing anywhere else.
\<close>

theorem generate_signals_confirmation:
  assumes "c_crossover df = Some cross" and "c_sma_short df = Some ss"
    and "c_sma_long df = Some sl" and "c_sma_diff df = Some d" and "c_close df = Some cl"
    and "length cross = nrows df" and "length ss = nrows df" and "length sl = nrows df"
  shows "\<exists>df' sg.
      generate_signals k df = Inr df' \<and> c_signal df' = Some sg \<and> length sg = nrows df
    \<and> c_crossover df' = Some cross
    \<and> (k = 1 \<longrightarrow> sg = cross)
    \<and> (1 < k \<longrightarrow>
         (\<forall>i<nrows df.
            (cross ! i = 1 \<longrightarrow>
               (if i + nat k < nrows df \<and> nan_lt (sl ! (i + nat k)) (ss ! (i + nat k))
                then sg ! (i + nat k) = 1
                else i + nat k < nrows df \<longrightarrow> sg ! (i + nat k) = 0))
          \<and> (cross ! i = -1 \<longrightarrow>
               (if i + nat k < nrows df \<and> nan_lt (ss ! (i + nat k)) (sl ! (i + nat k))
                then sg ! (i + nat k) = -1
                else i + nat k < nrows df \<longrightarrow> sg ! (i + nat k) = 0))
          \<and> (sg ! i \<noteq> 0 \<longrightarrow> nat k \<le> i \<and> cross ! (i - nat k) = sg ! i
                \<and> (sg ! i = 1 \<or> sg ! i = -1))))"
proof -
  from signal_column_cols [OF assms(1,2,3,6), of k]
  obtain sg where sc: "signal_column k df = Inr sg" and len: "length sg = nrows df"
    and k1': "k \<le> 1 \<longrightarrow> sg = cross"
    and kk: "1 < k \<longrightarrow> (\<forall>j<nrows df. sg ! j = confirmed_at cross ss sl (nat k) (nrows df) j)"
    by blast
  define df' where "df' = df\<lparr> c_signal := Some sg,
                              c_signal_strength := Some (map strength (zip d cl)) \<rparr>"
  have run: "generate_signals k df = Inr df'"
    using assms(4,5) sc by (simp add: generate_signals_def df'_def)
  have cols: "c_signal df' = Some sg" "c_crossover df' = Some cross"
    using assms(1) by (simp_all add: df'_def)
  have k1: "k = 1 \<longrightarrow> sg = cross" using k1' by simp
  have big: "1 < k \<longrightarrow>
         (\<forall>i<nrows df.
            (cross ! i = 1 \<longrightarrow>
               (if i + nat k < nrows df \<and> nan_lt (sl ! (i + nat k)) (ss ! (i + nat k))
                then sg ! (i + nat k) = 1
                else i + nat k < nrows df \<longrightarrow> sg ! (i + nat k) = 0))
          \<and> (cross ! i = -1 \<longrightarrow>
               (if i + nat k < nrows df \<and> nan_lt (ss ! (i + nat k)) (sl ! (i + nat k))
                then sg ! (i + nat k) = -1
                else i + nat k < nrows df \<longrightarrow> sg ! (i + nat k) = 0))
          \<and> (sg ! i \<noteq> 0 \<longrightarrow> nat k \<le> i \<and> cross ! (i - nat k) = sg ! i
                \<and> (sg ! i = 1 \<or> sg ! i = -1)))"
  proof (intro impI allI)
    fix i assume k: "1 < k" and i: "i < nrows df"
    from kk k have at: "\<And>j. j < nrows df \<Longrightarrow> sg ! j = confirmed_at cross ss sl (nat k) (nrows df) j"
      by simp
    show "(cross ! i = 1 \<longrightarrow>
               (if i + nat k < nrows df \<and> nan_lt (sl ! (i + nat k)) (ss ! (i + nat k))
                then sg ! (i + nat k) = 1
                else i + nat k < nrows df \<longrightarrow> sg ! (i + nat k) = 0))
          \<and> (cross ! i = -1 \<longrightarrow>
               (if i + nat k < nrows df \<and> nan_lt (ss ! (i + nat k)) (sl ! (i + nat k))
                then sg ! (i + nat k) = -1
                else i + nat k < nrows df \<longrightarrow> sg ! (i + nat k) = 0))
          \<and> (sg ! i \<noteq> 0 \<longrightarrow> nat k \<le> i \<and> cross ! (i - nat k) = sg ! i
                \<and> (sg ! i = 1 \<or> sg ! i = -1))"
      using at [of "i + nat k"] at [OF i] i
      by (auto simp: confirmed_at_def split: if_splits)
  qed
  from run cols len k1 big show ?thesis by blast
qed

theorem generate_signals_confirmation_witness:
  "c_crossover example_indicator_frame = Some [0, 0, 0, 1, 0, 0]
   \<and> (1::int) < 2 \<and> (3::nat) < nrows example_indicator_frame
   \<and> 3 + nat 2 < nrows example_indicator_frame
   \<and> (\<exists>df' sg. generate_signals 2 example_indicator_frame = Inr df'
          \<and> c_signal df' = Some sg \<and> sg ! 5 = 1 \<and> sg ! 3 = 0)"
proof -
  have a: "c_crossover example_indicator_frame = Some [0, 0, 0, 1, 0, 0]"
    and b: "c_sma_short example_indicator_frame = Some [Some 1, Some 1, Some 1, Some 2, Some 3, Some 4]"
    and c: "c_sma_long example_indicator_frame = Some [None, Some 1, Some 1, Some (3 / 2), Some (5 / 2), Some (7 / 2)]"
    and d: "c_sma_diff example_indicator_frame = Some [None, Some 0, Some 0, Some (1 / 2), Some (1 / 2), Some (1 / 2)]"
    and e: "c_close example_indicator_frame = Some example_closes"
    and n: "nrows example_indicator_frame = 6"
    by (simp_all add: example_indicator_frame_def example_frame_def empty_frame_def)
  have l: "length [0, 0, 0, 1, 0, 0 :: int] = nrows example_indicator_frame"
    "length [Some 1, Some 1, Some 1, Some 2, Some 3, Some (4::real)] = nrows example_indicator_frame"
    "length [None, Some 1, Some 1, Some (3 / 2), Some (5 / 2), Some (7 / 2 :: real)] = nrows example_indicator_frame"
    by (simp_all add: n)
  from generate_signals_confirmation [OF a b c d e l, of 2]
  obtain df' sg where run: "generate_signals 2 example_indicator_frame = Inr df'"
    and sg: "c_signal df' = Some sg"
    and all: "\<forall>i<nrows example_indicator_frame.
            ([0, 0, 0, 1, 0, 0 :: int] ! i = 1 \<longrightarrow>
               (if i + nat 2 < nrows example_indicator_frame
                    \<and> nan_lt ([None, Some 1, Some 1, Some (3 / 2), Some (5 / 2), Some (7 / 2)] ! (i + nat 2))
                             ([Some 1, Some 1, Some 1, Some 2, Some 3, Some 4] ! (i + nat 2))
                then sg ! (i + nat 2) = 1
                else i + nat 2 < nrows example_indicator_frame \<longrightarrow> sg ! (i + nat 2) = 0))
          \<and> (sg ! i \<noteq> 0 \<longrightarrow> nat 2 \<le> i \<and> [0, 0, 0, 1, 0, 0 :: int] ! (i - nat 2) = sg ! i
                \<and> (sg ! i = 1 \<or> sg ! i = -1))"
    by auto
  from all [rule_format, of 3] have "sg ! 5 = 1 \<and> sg ! 3 = 0" by (simp add: n)
  with run sg a n show ?thesis by auto
qed

text \<open>
  C4, as the code has it.  \<open>__init__\<close> raises exactly when
  \<open>short_period \<ge> long_period\<close>; with \<open>short_period < long_period\<close> it succeeds for
  every value of \<open>min_candles_after_cross\<close>, which it stores unchecked.
\<close>

theorem init_rejects_period_order_only:
  "(short_p \<ge> long_p \<longrightarrow> init short_p long_p min_candles = Inl ValueError)
   \<and> (short_p < long_p \<longrightarrow>
        init short_p long_p min_candles =
          Inr \<lparr> name = ''SMA_Crossover'',
                parameters = [(''short_period'', short_p), (''long_period'', long_p),
                              (''min_candles_after_cross'', min_candles)],
                short_period = short_p, long_period = long_p,
                min_candles_after_cross = min_candles, data = None, signals = None \<rparr>)"
  by (simp add: init_def)

theorem init_rejects_period_order_only_witness:
  "init 10 5 1 = Inl ValueError \<and> init 5 5 1 = Inl ValueError
   \<and> init 5 10 (-3) =
          Inr \<lparr> name = ''SMA_Crossover'',
                parameters = [(''short_period'', 5), (''long_period'', 10),
                              (''min_candles_after_cross'', -3)],
                short_period = 5, long_period = 10,
                min_candles_after_cross = -3, data = None, signals = None \<rparr>"
  using init_rejects_period_order_only [where short_p = 5 and long_p = 10 and min_candles = "-3"]
    init_rejects_period_order_only [where short_p = 10 and long_p = 5 and min_candles = 1]
    init_rejects_period_order_only [where short_p = 5 and long_p = 5 and min_candles = 1] by simp

text \<open>C4 as stated fails: a lag of 0 is none of the specified modes, and the constructor
  accepts it.\<close>

theorem init_accepts_lag_zero_counterexample:
  "\<not> spec_valid_lag 0
   \<and> init 5 10 0 =
          Inr \<lparr> name = ''SMA_Crossover'',
                parameters = [(''short_period'', 5), (''long_period'', 10),
                              (''min_candles_after_cross'', 0)],
                short_period = 5, long_period = 10,
                min_candles_after_cross = 0, data = None, signals = None \<rparr>"
  by (simp add: spec_valid_lag_def init_def)

theorem crossover_marks_sign_change_witness:
  "c_close example_frame = Some example_closes \<and> (0::int) \<le> 1 \<and> (0::int) \<le> 2
   \<and> (\<exists>df' cross. calculate_indicators 1 2 example_frame = Inr df'
         \<and> c_crossover df' = Some cross \<and> cross = [0, 0, 0, 1, 0, 0]
         \<and> cross ! 1 = 0 \<and> cross ! 3 = 1)"
proof -
  have a: "c_close example_frame = Some example_closes"
    by (simp add: example_frame_def empty_frame_def)
  from crossover_marks_sign_change [OF a, where short_p = 1 and long_p = 2]
  obtain df' cross where run: "calculate_indicators 1 2 example_frame = Inr df'"
    and cr: "c_crossover df' = Some cross" by auto
  from run cr have "cross = [0, 0, 0, 1, 0, 0]"
    unfolding example_indicators by auto
  with run cr a show ?thesis by simp
qed

section \<open>Properties of the strategy object\<close>

lemma calculate_indicators_Inr:
  assumes "calculate_indicators sp lp df = Inr df1"
  obtains close ss sl where "c_close df = Some close"
    and "sma (map Some close) sp = Inr ss" and "sma (map Some close) lp = Inr sl"
    and "df1 = df\<lparr> c_sma_short := Some ss, c_sma_long := Some sl,
                     c_sma_diff := Some (series_sub ss sl),
                     c_crossover := Some (crossovers (series_sub ss sl)) \<rparr>"
  using assms
  by (auto simp: calculate_indicators_def Let_def split: option.splits sum.splits)

lemma pipeline_idempotent:
  assumes "calculate_indicators sp lp df = Inr df1" and "generate_signals k df1 = Inr df2"
  shows "\<exists>df3. calculate_indicators sp lp df2 = Inr df3 \<and> generate_signals k df3 = Inr df2"
proof -
  from assms(1) obtain close ss sl where cl: "c_close df = Some close"
    and s1: "sma (map Some close) sp = Inr ss" and s2: "sma (map Some close) lp = Inr sl"
    and df1: "df1 = df\<lparr> c_sma_short := Some ss, c_sma_long := Some sl,
                     c_sma_diff := Some (series_sub ss sl),
                     c_crossover := Some (crossovers (series_sub ss sl)) \<rparr>"
    by (rule calculate_indicators_Inr)
  from assms(2) obtain sg where sc: "signal_column k df1 = Inr sg"
    and df2: "df2 = df1\<lparr> c_signal := Some sg,
                        c_signal_strength := Some (map strength (zip (series_sub ss sl) close)) \<rparr>"
    using cl by (auto simp: generate_signals_def df1 split: sum.splits)
  have c3: "calculate_indicators sp lp df2 = Inr df2"
    using cl s1 s2 by (simp add: calculate_indicators_def Let_def df2 df1)
  have "signal_column k df2 = signal_column k df1"
    by (rule signal_column_cong) (simp_all add: df2)
  then have "generate_signals k df2 = Inr df2"
    using cl sc by (simp add: generate_signals_def df2 df1)
  with c3 show ?thesis by blast
qed

lemma run_twice:
  assumes "run h self = Inr (h', self')"
  shows "run h' self' = Inr (h', self')"
proof -
  from assms obtain a df1 df2 where a: "data self = Some a"
    and c: "calculate_indicators (short_period self) (long_period self) (h ! a) = Inr df1"
    and g: "generate_signals (min_candles_after_cross self) df1 = Inr df2"
    and h': "h' = h[a := df2]" and s': "self' = self\<lparr>signals := Some a\<rparr>"
    by (auto simp: run_def split: option.splits sum.splits)
  show ?thesis
  proof (cases "a < length h")
    case True
    then have at: "h' ! a = df2" by (simp add: h')
    from pipeline_idempotent [OF c g] obtain df3 where
      "calculate_indicators (short_period self) (long_period self) df2 = Inr df3"
      "generate_signals (min_candles_after_cross self) df3 = Inr df2" by blast
    then show ?thesis using a at by (simp add: run_def s' h')
  next
    case False
    then have e: "h[a := df2] = h" by (simp add: list_update_beyond)
    then show ?thesis using a c g by (simp add: run_def s' h')
  qed
qed

lemma run_succeeds:
  assumes "data self = Some a" and "c_close (h ! a) = Some close"
    and "0 \<le> short_period self" and "0 \<le> long_period self"
    and "ss = rolling_mean (nat (short_period self)) (nat (short_period self)) (map Some close)"
    and "sl = rolling_mean (nat (long_period self)) (nat (long_period self)) (map Some close)"
  shows "\<exists>sg. run h self =
     Inr (h[a := (h ! a)\<lparr> c_sma_short := Some ss, c_sma_long := Some sl,
                c_sma_diff := Some (series_sub ss sl),
                c_crossover := Some (crossovers (series_sub ss sl)),
                c_signal := Some sg,
                c_signal_strength := Some (map strength (zip (series_sub ss sl) close)) \<rparr>],
          self\<lparr>signals := Some a\<rparr>)"
proof -
  define df1 where "df1 = (h ! a)\<lparr> c_sma_short := Some ss, c_sma_long := Some sl,
                c_sma_diff := Some (series_sub ss sl),
                c_crossover := Some (crossovers (series_sub ss sl)) \<rparr>"
  have c: "calculate_indicators (short_period self) (long_period self) (h ! a) = Inr df1"
    using assms(2-6)
    by (simp add: calculate_indicators_def sma_def rolling_window_mean_def Let_def df1_def)
  have "\<exists>sg. signal_column (min_candles_after_cross self) df1 = Inr sg"
  proof (cases "1 < min_candles_after_cross self")
    case True
    from confirm_loop_invariant [of df1 "crossovers (series_sub ss sl)" ss sl "nrows df1"
        "nat (min_candles_after_cross self)"]
    show ?thesis using True by (auto simp: signal_column_def df1_def)
  next
    case False
    then show ?thesis by (simp add: signal_column_def df1_def)
  qed
  then obtain sg where sc: "signal_column (min_candles_after_cross self) df1 = Inr sg" ..
  have "run h self =
     Inr (h[a := df1\<lparr> c_signal := Some sg,
                c_signal_strength := Some (map strength (zip (series_sub ss sl) close)) \<rparr>],
          self\<lparr>signals := Some a\<rparr>)"
    using assms(1,2) c sc by (simp add: run_def generate_signals_def) (simp add: df1_def)
  then show ?thesis unfolding df1_def by auto
qed

text \<open>
  C9.  On loaded data with a \<open>close\<close> column and non-negative periods, \<open>run\<close>
  succeeds, and running again on what it left gives the same store and the same
  strategy: the frame behind \<open>self.data\<close> and \<open>self.signals\<close>, with its averages,
  crossovers, signals and strengths, is the same after every run.  No other object of the
  store changes.
\<close>

theorem run_idempotent:
  assumes "data self = Some a" and "a < length h" and "c_close (h ! a) = Some close"
    and "0 \<le> short_period self" and "0 \<le> long_period self"
  shows "\<exists>h' self'. run h self = Inr (h', self') \<and> run h' self' = Inr (h', self')
     \<and> data self' = Some a \<and> signals self' = Some a
     \<and> length h' = length h \<and> (\<forall>b<length h. b \<noteq> a \<longrightarrow> h' ! b = h ! b)
     \<and> c_close (h' ! a) = Some close
     \<and> c_sma_short (h' ! a) \<noteq> None \<and> c_sma_long (h' ! a) \<noteq> None
     \<and> c_crossover (h' ! a) \<noteq> None \<and> c_signal (h' ! a) \<noteq> None
     \<and> c_signal_strength (h' ! a) \<noteq> None"
proof -
  define ss where "ss = rolling_mean (nat (short_period self)) (nat (short_period self)) (map Some close)"
  define sl where "sl = rolling_mean (nat (long_period self)) (nat (long_period self)) (map Some close)"
  from run_succeeds [OF assms(1,3,4,5) ss_def sl_def]
  obtain sg where r0: "run h self =
     Inr (h[a := (h ! a)\<lparr> c_sma_short := Some ss, c_sma_long := Some sl,
                c_sma_diff := Some (series_sub ss sl),
                c_crossover := Some (crossovers (series_sub ss sl)),
                c_signal := Some sg,
                c_signal_strength := Some (map strength (zip (series_sub ss sl) close)) \<rparr>],
          self\<lparr>signals := Some a\<rparr>)" ..
  define df2 where "df2 = (h ! a)\<lparr> c_sma_short := Some ss, c_sma_long := Some sl,
                c_sma_diff := Some (series_sub ss sl),
                c_crossover := Some (crossovers (series_sub ss sl)),
                c_signal := Some sg,
                c_signal_strength := Some (map strength (zip (series_sub ss sl) close)) \<rparr>"
  have r: "run h self = Inr (h[a := df2], self\<lparr>signals := Some a\<rparr>)"
    unfolding df2_def by (rule r0)
  have r2: "run (h[a := df2]) (self\<lparr>signals := Some a\<rparr>) = Inr (h[a := df2], self\<lparr>signals := Some a\<rparr>)"
    using r by (rule run_twice)
  have at: "h[a := df2] ! a = df2" using assms(2) by simp
  have cols: "c_close df2 = Some close" "c_sma_short df2 \<noteq> None" "c_sma_long df2 \<noteq> None"
    "c_crossover df2 \<noteq> None" "c_signal df2 \<noteq> None" "c_signal_strength df2 \<noteq> None"
    using assms(3) by (simp_all add: df2_def)
  have oth: "\<forall>b<length h. b \<noteq> a \<longrightarrow> h[a := df2] ! b = h ! b" by simp
  show ?thesis
    apply (rule exI [of _ "h[a := df2]"], rule exI [of _ "self\<lparr>signals := Some a\<rparr>"])
    using r r2 at cols oth assms(1) by simp
qed

theorem run_idempotent_witness:
  "data (fresh_strategy\<lparr>data := Some 0\<rparr>) = Some 0 \<and> (0::nat) < length [example_frame]
   \<and> c_close ([example_frame] ! 0) = Some example_closes
   \<and> (\<exists>h' self'. run [example_frame] (fresh_strategy\<lparr>data := Some 0\<rparr>) = Inr (h', self')
         \<and> run h' self' = Inr (h', self') \<and> c_signal (h' ! 0) \<noteq> None)"
proof -
  have a: "data (fresh_strategy\<lparr>data := Some 0\<rparr>) = Some 0" by simp
  have b: "(0::nat) < length [example_frame]" by simp
  have c: "c_close ([example_frame] ! 0) = Some example_closes"
    by (simp add: example_frame_def)
  have d: "0 \<le> short_period (fresh_strategy\<lparr>data := Some 0\<rparr>)"
     "0 \<le> long_period (fresh_strategy\<lparr>data := Some 0\<rparr>)"
    by (simp_all add: fresh_strategy_def)
  from run_idempotent [OF a b c d] show ?thesis using a b c by blast
qed

lemma init_fresh: "init 1 2 2 = Inr fresh_strategy"
  by (simp add: init_def fresh_strategy_def)

text \<open>
  C7, as the code has it.  Before the first \<open>run\<close> (\<open>self.signals\<close> is \<open>None\<close>), whether
  or not data is loaded, the queries of the base class answer from their guard on
  \<open>self.signals\<close>: \<open>get_all_signals\<close> returns the empty frame, \<open>get_summary\<close> the empty
  dict, and \<open>export_signals\<close> raises ValueError.
\<close>

theorem queries_before_run:
  assumes "signals self = None"
  shows "get_all_signals h self signal_type = Inr empty_frame
     \<and> get_summary h self = Inr None
     \<and> export_signals h self = Inl ValueError"
  using assms
  by (simp add: get_all_signals_def get_summary_def export_signals_def)

lemma load_signal_frame:
  "load_data [signal_frame] fresh_strategy 0 =
     Inr ([signal_frame, signal_frame, signal_frame], fresh_strategy\<lparr>data := Some 2\<rparr>)"
  by (simp add: load_data_def signal_frame_def empty_frame_def required_columns_def has_column_def
      sort_values_time_def select_rows_def argsort_def take_rows_def upt_rec [of 0] upt_rec [of "Suc _"])

text \<open>
  C7 as stated fails.  On a new strategy two of the four queries return an empty result
  and two raise, so the four do not answer in one way; and \<open>get_performance_summary\<close>,
  which has no guard on \<open>self.signals\<close>, returns a full summary before any run when the
  loaded frame has a \<open>signal\<close> column.
\<close>

theorem queries_before_run_counterexample:
  "signals fresh_strategy = None
   \<and> get_all_signals [] fresh_strategy None = Inr empty_frame
   \<and> get_summary [] fresh_strategy = Inr None
   \<and> export_signals [] fresh_strategy = Inl ValueError
   \<and> get_performance_summary [] fresh_strategy = Inl TypeError
   \<and> load_data [signal_frame] fresh_strategy 0 =
       Inr ([signal_frame, signal_frame, signal_frame], fresh_strategy\<lparr>data := Some 2\<rparr>)
   \<and> signals (fresh_strategy\<lparr>data := Some 2\<rparr>) = None
   \<and> get_performance_summary [signal_frame, signal_frame, signal_frame]
         (fresh_strategy\<lparr>data := Some 2\<rparr>) =
       Inr (Metrics
        \<lparr>total_trades = 1, winning_trades = 1, losing_trades = 0,
           win_rate = 100, total_pips = 10000,
           average_pips_per_trade = 10000, best_trade_pips = 10000,
           worst_trade_pips = 10000, average_win_pips = 10000,
           average_loss_pips = 0, profit_factor = PInf,
           total_return_percent = Fin 100\<rparr>)"
proof (intro conjI)
  show "load_data [signal_frame] fresh_strategy 0 =
       Inr ([signal_frame, signal_frame, signal_frame], fresh_strategy\<lparr>data := Some 2\<rparr>)"
    by (rule load_signal_frame)
  show "get_performance_summary [signal_frame, signal_frame, signal_frame]
         (fresh_strategy\<lparr>data := Some 2\<rparr>) =
       Inr (Metrics
        \<lparr>total_trades = 1, winning_trades = 1, losing_trades = 0,
           win_rate = 100, total_pips = 10000,
           average_pips_per_trade = 10000, best_trade_pips = 10000,
           worst_trade_pips = 10000, average_win_pips = 10000,
           average_loss_pips = 0, profit_factor = PInf,
           total_return_percent = Fin 100\<rparr>)"
    by (simp add: get_performance_summary_def get_entry_exit_pairs_def signal_frame_def
        empty_frame_def signal_rows_def entry_exit_pairs_def nonzero_signals_def run_rows_def
        long_trade_def py_div_def summarize_def Let_def winners_def losers_def pips_sum_def
        pips_mean_def sum_skipna_def)
qed (simp_all add: get_all_signals_def get_summary_def export_signals_def
      get_performance_summary_def get_entry_exit_pairs_def fresh_strategy_def)

theorem queries_before_run_witness:
  "signals fresh_strategy = None
   \<and> get_all_signals [] fresh_strategy (Some 1) = Inr empty_frame
   \<and> get_summary [] fresh_strategy = Inr None
   \<and> export_signals [] fresh_strategy = Inl ValueError
   \<and> signals (fresh_strategy\<lparr>data := Some 0\<rparr>) = None
   \<and> get_all_signals [example_frame] (fresh_strategy\<lparr>data := Some 0\<rparr>) None = Inr empty_frame
   \<and> get_summary [example_frame] (fresh_strategy\<lparr>data := Some 0\<rparr>) = Inr None
   \<and> export_signals [example_frame] (fresh_strategy\<lparr>data := Some 0\<rparr>) = Inl ValueError"
proof -
  have a: "signals fresh_strategy = None" by (simp add: fresh_strategy_def)
  have a': "signals (fresh_strategy\<lparr>data := Some 0\<rparr>) = None" by (simp add: fresh_strategy_def)
  from queries_before_run [OF a, of "[]" "Some 1"]
    queries_before_run [OF a', of "[example_frame]" None] a a'
  show ?thesis by simp
qed

section \<open>Properties of load\_data\<close>

lemma mset_argsort: "mset (argsort ts) = mset [0..<length ts]"
  by (simp add: argsort_def)

lemma set_argsort: "set (argsort ts) = {0..<length ts}"
  using mset_argsort [of ts] by (metis mset_eq_setD set_upt)

lemma length_argsort [simp]: "length (argsort ts) = length ts"
  using mset_argsort [of ts] by (metis mset_eq_length length_upt diff_zero)

lemma sorted_take_rows_argsort: "sorted (take_rows (argsort ts) ts)"
  unfolding take_rows_def argsort_def by (rule sorted_sort_key)

lemma take_rows_zip:
  "take_rows p (zip xs ys) = zip (take_rows p xs) (take_rows p ys)"
  if "\<forall>i\<in>set p. i < length xs \<and> i < length ys"
  using that by (induction p) (simp_all add: take_rows_def)

lemma mset_take_rows_perm:
  assumes "mset p = mset [0..<length xs]"
  shows "mset (take_rows p xs) = mset xs"
proof -
  have "mset (take_rows p xs) = image_mset ((!) xs) (mset p)"
    by (simp add: take_rows_def)
  also have "\<dots> = image_mset ((!) xs) (mset [0..<length xs])" by (simp add: assms)
  also have "\<dots> = mset (map ((!) xs) [0..<length xs])" by simp
  also have "\<dots> = mset xs" by (simp add: map_nth)
  finally show ?thesis .
qed

lemma length_take_rows [simp]: "length (take_rows p xs) = length p"
  by (simp add: take_rows_def)

lemma wf_select_rows: "wf_frame (select_rows p df)"
  by (simp add: wf_frame_def select_rows_def col_ok_def split: option.splits)

lemma list_all_required:
  "list_all (has_column df) required_columns \<longleftrightarrow>
     c_time df \<noteq> None \<and> c_open df \<noteq> None \<and> c_high df \<noteq> None \<and> c_low df \<noteq> None
     \<and> c_close df \<noteq> None \<and> c_volume df \<noteq> None"
  by (simp add: required_columns_def has_column_def)

lemma candles_select_rows:
  assumes "wf_frame df" and "list_all (has_column df) required_columns"
    and "set p \<subseteq> {0..<nrows df}"
  shows "candles (select_rows p df) = take_rows p (candles df)"
proof -
  from assms(2) obtain t o' hi lo cl v where c: "c_time df = Some t" "c_open df = Some o'"
    "c_high df = Some hi" "c_low df = Some lo" "c_close df = Some cl" "c_volume df = Some v"
    by (auto simp: list_all_required)
  with assms(1) have l: "length t = nrows df" "length o' = nrows df" "length hi = nrows df"
    "length lo = nrows df" "length cl = nrows df" "length v = nrows df"
    by (simp_all add: wf_frame_def col_ok_def)
  have p: "\<forall>i\<in>set p. i < nrows df" using assms(3) by auto
  show ?thesis
    using p by (simp add: candles_def select_rows_def c l take_rows_zip)
qed

text \<open>
  C8, as the code has it.  \<open>load_data\<close> raises ValueError when one of the six required
  columns is missing.  Otherwise it succeeds, whatever the order of the rows: every
  object the caller had is unchanged, \<open>self.data\<close> refers to a new object that holds the
  same candles in ascending order of time, and no later assignment to an object the
  caller had changes it.
\<close>

theorem load_data_checks_columns_and_sorts:
  assumes "a < length h" and "wf_frame (h ! a)"
  shows "(\<not> list_all (has_column (h ! a)) required_columns \<longrightarrow>
            load_data h self a = Inl ValueError)
   \<and> (list_all (has_column (h ! a)) required_columns \<longrightarrow>
       (\<exists>h' b ts. load_data h self a = Inr (h', self\<lparr>data := Some b\<rparr>)
          \<and> length h \<le> b \<and> b < length h'
          \<and> (\<forall>c<length h. h' ! c = h ! c)
          \<and> c_time (h' ! b) = Some ts \<and> sorted ts
          \<and> mset (candles (h' ! b)) = mset (candles (h ! a))
          \<and> nrows (h' ! b) = nrows (h ! a)
          \<and> wf_frame (h' ! b)
          \<and> (\<forall>c<length h. \<forall>f. (h'[c := f]) ! b = h' ! b)))"
proof (intro conjI impI)
  assume "\<not> list_all (has_column (h ! a)) required_columns"
  then show "load_data h self a = Inl ValueError" by (simp add: load_data_def)
next
  assume req: "list_all (has_column (h ! a)) required_columns"
  then obtain t where t: "c_time (h ! a) = Some t" by (auto simp: list_all_required)
  have lt: "length t = nrows (h ! a)" using assms(2) t by (simp add: wf_frame_def col_ok_def)
  define df where "df = select_rows (argsort t) (h ! a)"
  define h' where "h' = (h @ [h ! a]) @ [df]"
  define b where "b = Suc (length h)"
  have ld: "load_data h self a = Inr (h', self\<lparr>data := Some b\<rparr>)"
    using req t by (simp add: load_data_def Let_def sort_values_time_def h'_def df_def b_def)
  have at: "h' ! b = df" by (simp add: h'_def b_def nth_append)
  have old: "\<forall>c<length h. h' ! c = h ! c" by (simp add: h'_def nth_append)
  have tm: "c_time df = Some (take_rows (argsort t) t)" by (simp add: df_def select_rows_def t)
  have srt: "sorted (take_rows (argsort t) t)" by (rule sorted_take_rows_argsort)
  have sub: "set (argsort t) \<subseteq> {0..<nrows (h ! a)}" by (simp add: set_argsort lt)
  have "candles df = take_rows (argsort t) (candles (h ! a))"
    unfolding df_def by (rule candles_select_rows [OF assms(2) req sub])
  moreover have "length (candles (h ! a)) = length t"
    using assms(2) req t by (auto simp: candles_def list_all_required wf_frame_def col_ok_def)
  ultimately have ms: "mset (candles df) = mset (candles (h ! a))"
    by (simp add: mset_take_rows_perm mset_argsort)
  have nr: "nrows df = nrows (h ! a)" by (simp add: df_def select_rows_def lt)
  have wf: "wf_frame df" unfolding df_def by (rule wf_select_rows)
  have mut: "\<forall>c<length h. \<forall>f. (h'[c := f]) ! b = h' ! b" by (simp add: b_def)
  have bb: "length h \<le> b" "b < length h'" by (simp_all add: b_def h'_def)
  show "\<exists>h' b ts. load_data h self a = Inr (h', self\<lparr>data := Some b\<rparr>)
          \<and> length h \<le> b \<and> b < length h'
          \<and> (\<forall>c<length h. h' ! c = h ! c)
          \<and> c_time (h' ! b) = Some ts \<and> sorted ts
          \<and> mset (candles (h' ! b)) = mset (candles (h ! a))
          \<and> nrows (h' ! b) = nrows (h ! a)
          \<and> wf_frame (h' ! b)
          \<and> (\<forall>c<length h. \<forall>f. (h'[c := f]) ! b = h' ! b)"
    apply (rule exI [of _ h'], rule exI [of _ b], rule exI [of _ "take_rows (argsort t) t"])
    using ld bb old tm srt ms nr wf mut unfolding at by blast
qed

lemma load_unsorted:
  "load_data [unsorted_frame] fresh_strategy 0 =
     Inr ([unsorted_frame, unsorted_frame, sorted_frame], fresh_strategy\<lparr>data := Some 2\<rparr>)"
  by (simp add: load_data_def unsorted_frame_def sorted_frame_def empty_frame_def
      required_columns_def has_column_def sort_values_time_def select_rows_def argsort_def
      take_rows_def upt_rec [of 0] upt_rec [of "Suc _"])

text \<open>C8 as stated fails: a frame whose times are out of order is not rejected, it is
  loaded and sorted.\<close>

theorem load_data_accepts_unsorted_counterexample:
  "c_time unsorted_frame = Some [2, 0, 1]
   \<and> load_data [unsorted_frame] fresh_strategy 0 =
     Inr ([unsorted_frame, unsorted_frame, sorted_frame], fresh_strategy\<lparr>data := Some 2\<rparr>)
   \<and> c_time sorted_frame = Some [0, 1, 2]"
  using load_unsorted by (simp add: unsorted_frame_def sorted_frame_def empty_frame_def)

theorem load_data_checks_columns_and_sorts_witness:
  "(0::nat) < length [empty_frame] \<and> wf_frame ([empty_frame] ! 0)
   \<and> \<not> list_all (has_column ([empty_frame] ! 0)) required_columns
   \<and> load_data [empty_frame] fresh_strategy 0 = Inl ValueError
   \<and> (0::nat) < length [unsorted_frame] \<and> wf_frame ([unsorted_frame] ! 0)
   \<and> list_all (has_column ([unsorted_frame] ! 0)) required_columns
   \<and> (\<exists>h' b ts. load_data [unsorted_frame] fresh_strategy 0 = Inr (h', fresh_strategy\<lparr>data := Some b\<rparr>)
         \<and> c_time (h' ! b) = Some ts \<and> sorted ts
         \<and> (h'[0 := empty_frame]) ! b = h' ! b)"
proof -
  have a: "(0::nat) < length [empty_frame]" and a': "(0::nat) < length [unsorted_frame]" by simp_all
  have w: "wf_frame ([empty_frame] ! 0)" by (simp add: wf_frame_def empty_frame_def col_ok_def)
  have w': "wf_frame ([unsorted_frame] ! 0)"
    by (simp add: wf_frame_def unsorted_frame_def empty_frame_def col_ok_def)
  have m: "\<not> list_all (has_column ([empty_frame] ! 0)) required_columns"
    by (simp add: list_all_required empty_frame_def)
  have m': "list_all (has_column ([unsorted_frame] ! 0)) required_columns"
    by (simp add: list_all_required unsorted_frame_def empty_frame_def)
  from load_data_checks_columns_and_sorts [OF a w, of fresh_strategy] m
  have e: "load_data [empty_frame] fresh_strategy 0 = Inl ValueError" by blast
  from load_data_checks_columns_and_sorts [OF a' w', of fresh_strategy] m'
  obtain h' b ts where "load_data [unsorted_frame] fresh_strategy 0 = Inr (h', fresh_strategy\<lparr>data := Some b\<rparr>)"
    "c_time (h' ! b) = Some ts" "sorted ts"
    "\<forall>c<length [unsorted_frame]. \<forall>f. (h'[c := f]) ! b = h' ! b" by blast
  then have "\<exists>h' b ts. load_data [unsorted_frame] fresh_strategy 0 = Inr (h', fresh_strategy\<lparr>data := Some b\<rparr>)
         \<and> c_time (h' ! b) = Some ts \<and> sorted ts
         \<and> (h'[0 := empty_frame]) ! b = h' ! b"
    by (metis a')
  with a a' w w' m m' e show ?thesis by blast
qed

section \<open>Properties of the indicator library\<close>

lemma observed_nan_free: "nan_free xs \<Longrightarrow> length (observed xs) = length xs"
  by (induction xs rule: observed.induct) (simp_all add: nan_free_def)

lemma nan_free_trailing: "nan_free xs \<Longrightarrow> nan_free (trailing w i xs)"
  unfolding nan_free_def trailing_def list_all_iff
  by (meson in_set_dropD in_set_takeD)

lemma length_trailing: "i < length xs \<Longrightarrow> length (trailing w i xs) = min w (i + 1)"
  by (auto simp: trailing_def)

lemma length_observed_trailing:
  "nan_free xs \<Longrightarrow> i < length xs \<Longrightarrow> length (observed (trailing w i xs)) = min w (i + 1)"
  by (simp add: observed_nan_free nan_free_trailing length_trailing)

lemma rolling_mean_None_iff:
  assumes "nan_free xs" and "i < length xs" and "1 \<le> p"
  shows "rolling_mean p p xs ! i = None \<longleftrightarrow> i + 1 < p"
  using assms length_observed_trailing [OF assms(1,2), of p]
  by (auto simp: rolling_mean_def Let_def)

lemma rolling_std_None_iff:
  assumes "nan_free xs" and "i < length xs" and "2 \<le> p"
  shows "rolling_std p p xs ! i = None \<longleftrightarrow> i + 1 < p"
  using assms length_observed_trailing [OF assms(1,2), of p]
  by (auto simp: rolling_std_def Let_def)

lemma length_ewm_loop [simp]: "length (ewm_loop \<alpha> minp w ow nobs xs) = length xs"
  by (induction xs arbitrary: w ow nobs) (simp_all add: Let_def)

lemma length_ewm_mean [simp]: "length (ewm_mean \<alpha> minp xs) = length xs"
  by (cases xs) (simp_all add: Let_def)

lemma ewm_loop_None_iff:
  assumes "nan_free xs" and "j < length xs"
  shows "ewm_loop \<alpha> minp (Some w) ow nobs xs ! j = None \<longleftrightarrow> nobs + j + 1 < minp"
  using assms
proof (induction xs arbitrary: w ow nobs j)
  case Nil
  then show ?case by simp
next
  case (Cons x xs)
  then obtain c where x: "x = Some c" and nf: "nan_free xs" by (auto simp: nan_free_def)
  show ?case
  proof (cases j)
    case 0
    then show ?thesis by (auto simp: x Let_def)
  next
    case (Suc j')
    with Cons.prems have "j' < length xs" by simp
    from Cons.IH [OF nf this] show ?thesis by (simp add: x Let_def Suc)
  qed
qed

lemma ewm_mean_None_iff:
  assumes "nan_free xs" and "i < length xs"
  shows "ewm_mean \<alpha> p xs ! i = None \<longleftrightarrow> i + 1 < p"
proof (cases xs)
  case Nil
  with assms show ?thesis by simp
next
  case (Cons x rest)
  with assms(1) obtain c where x: "x = Some c" and nf: "nan_free rest" by (auto simp: nan_free_def)
  show ?thesis
  proof (cases i)
    case 0
    then show ?thesis by (auto simp: Cons x Let_def)
  next
    case (Suc j)
    with assms(2) Cons have "j < length rest" by simp
    from ewm_loop_None_iff [OF nf this, of \<alpha> "max p 1" c 1 1] show ?thesis
      by (auto simp: Cons x Let_def Suc)
  qed
qed

lemma nan_free_ewm_mean: "nan_free xs \<Longrightarrow> nan_free (ewm_mean \<alpha> 0 xs)"
  unfolding nan_free_def [of "ewm_mean \<alpha> 0 xs"] list_all_length
  using ewm_mean_None_iff [of xs _ \<alpha> 0] by simp

lemma nan_free_nth: "nan_free xs \<Longrightarrow> i < length xs \<Longrightarrow> \<exists>v. xs ! i = Some v"
  by (auto simp: nan_free_def list_all_length)

lemma nan_free_series_sub:
  assumes "nan_free xs" and "nan_free ys"
  shows "nan_free (series_sub xs ys)"
  unfolding nan_free_def [of "series_sub xs ys"] list_all_length
proof (intro allI impI)
  fix i assume "i < length (series_sub xs ys)"
  then have i: "i < length xs" "i < length ys" by (simp_all add: series_sub_def)
  from nan_free_nth [OF assms(1) i(1)] nan_free_nth [OF assms(2) i(2)]
  show "series_sub xs ys ! i \<noteq> None" using i by (auto simp: series_sub_def)
qed

lemma length_rolling_std [simp]: "length (rolling_std w m xs) = length xs"
  by (simp add: rolling_std_def)

lemma length_true_range:
  "length (true_range high low close) = min (length high) (min (length low) (length close))"
  by (auto simp: true_range_def Let_def series_abs_def)

lemma nan_max_first: "nan_max (Some a # xs) \<noteq> None"
  by (simp add: nan_max_def)

lemma nan_free_true_range:
  assumes "nan_free high" and "nan_free low"
  shows "nan_free (true_range high low close)"
  unfolding nan_free_def [of "true_range high low close"] list_all_length
proof (intro allI impI)
  fix i assume "i < length (true_range high low close)"
  then have i: "i < length high" "i < length low" "i < length close"
    by (simp_all add: length_true_range)
  from nan_free_nth [OF assms(1) i(1)] nan_free_nth [OF assms(2) i(2)]
  obtain a b where "high ! i = Some a" "low ! i = Some b" by blast
  then show "true_range high low close ! i \<noteq> None"
    using i by (simp add: true_range_def Let_def series_abs_def series_sub_def nan_max_first)
qed

lemma nan_free_gains: "nan_free (gains delta)"
  by (induction delta) (auto simp: nan_free_def gains_def nan_lt_Some_left)

lemma nan_free_losses: "nan_free (losses delta)"
  by (induction delta) (auto simp: nan_free_def losses_def nan_lt_Some_right)

lemma length_gains [simp]: "length (gains d) = length d" by (simp add: gains_def)

lemma length_losses [simp]: "length (losses d) = length d" by (simp add: losses_def)

lemma length_diff1 [simp]: "length (diff1 xs) = length xs" by (simp add: diff1_def)

lemma rsi_value_NaN_iff:
  "rsi_value (g, l) = NaN \<longleftrightarrow> g = None \<or> l = None \<or> (g = Some 0 \<and> l = Some 0)"
proof (cases g)
  case None then show ?thesis by simp
next
  case (Some a)
  show ?thesis
  proof (cases l)
    case None then show ?thesis by (simp add: Some)
  next
    case (Some b)
    have "fl_add (Fin 100) (fl_neg (np_div 100 x)) \<noteq> NaN" for x
      by (simp add: np_div_def)
    then show ?thesis using \<open>g = Some a\<close> Some by simp
  qed
qed

lemma sma_defined:
  assumes "nan_free prices" and "i < length prices" and "1 \<le> period"
  shows "\<exists>s. sma prices period = Inr s \<and> length s = length prices
             \<and> (s ! i = None \<longleftrightarrow> int i + 1 < period)"
  using assms rolling_mean_None_iff [OF assms(1,2), of "nat period"]
  by (auto simp: sma_def rolling_window_mean_def)

lemma ema_defined:
  assumes "nan_free prices" and "i < length prices" and "1 \<le> period"
  shows "\<exists>e. ema prices period = Inr e \<and> length e = length prices
             \<and> (e ! i = None \<longleftrightarrow> int i + 1 < period)"
  using assms ewm_mean_None_iff [OF assms(1,2), of "2 / (real_of_int period + 1)" "nat period"]
  by (auto simp: ema_def ewm_span_def)

lemma atr_defined:
  assumes "nan_free high" and "nan_free low" and "i < length high"
    and "length low = length high" and "length close = length high" and "1 \<le> period"
  shows "\<exists>r. atr high low close period = Inr r \<and> length r = length high
             \<and> (r ! i = None \<longleftrightarrow> int i + 1 < period)"
proof -
  have i: "i < length (true_range high low close)"
    using assms(3,4,5) by (simp add: length_true_range)
  from rolling_mean_None_iff [OF nan_free_true_range [OF assms(1,2)] i, of "nat period"]
  show ?thesis using assms(4,5,6)
    by (auto simp: atr_def rolling_window_mean_def length_true_range)
qed

lemma bollinger_defined:
  assumes "nan_free prices" and "i < length prices" and "1 \<le> period"
  shows "\<exists>m u l. bollinger_bands prices period num_std = Inr (m, u, l)
           \<and> length m = length prices \<and> length u = length prices \<and> length l = length prices
           \<and> (m ! i = None \<longleftrightarrow> int i + 1 < period)
           \<and> (2 \<le> period \<longrightarrow> (u ! i = None \<longleftrightarrow> int i + 1 < period)
                               \<and> (l ! i = None \<longleftrightarrow> int i + 1 < period))"
proof -
  define m where "m = rolling_mean (nat period) (nat period) prices"
  define sd where "sd = rolling_std (nat period) (nat period) prices"
  have b: "bollinger_bands prices period num_std =
      Inr (m, series_add m (series_scale sd num_std), series_sub m (series_scale sd num_std))"
    using assms(3) by (simp add: bollinger_bands_def Let_def m_def sd_def)
  have mi: "m ! i = None \<longleftrightarrow> int i + 1 < period"
    using rolling_mean_None_iff [OF assms(1,2), of "nat period"] assms(3) by (auto simp: m_def)
  have si: "2 \<le> period \<Longrightarrow> sd ! i = None \<longleftrightarrow> int i + 1 < period"
    using rolling_std_None_iff [OF assms(1,2), of "nat period"] by (auto simp: sd_def)
  have lm: "length m = length prices" "length sd = length prices" by (simp_all add: m_def sd_def)
  have u: "series_add m (series_scale sd num_std) ! i = None \<longleftrightarrow> m ! i = None \<or> sd ! i = None"
    using assms(2) lm
    by (cases "m ! i"; cases "sd ! i") (simp_all add: series_add_def series_scale_def)
  have l: "series_sub m (series_scale sd num_std) ! i = None \<longleftrightarrow> m ! i = None \<or> sd ! i = None"
    using assms(2) lm
    by (cases "m ! i"; cases "sd ! i") (simp_all add: series_sub_def series_scale_def)
  have len: "length (series_add m (series_scale sd num_std)) = length prices"
    "length (series_sub m (series_scale sd num_std)) = length prices"
    using lm by (simp_all add: series_add_def series_scale_def)
  from b mi si u l lm(1) len show ?thesis by auto
qed

lemma rsi_defined:
  assumes "i < length prices" and "1 \<le> period"
  shows "\<exists>r g l. rsi prices period = Inr r \<and> length r = length prices
           \<and> rolling_window_mean period (gains (diff1 prices)) = Inr g
           \<and> rolling_window_mean period (losses (diff1 prices)) = Inr l
           \<and> (int i + 1 < period \<longrightarrow> r ! i = NaN)
           \<and> (period \<le> int i + 1 \<longrightarrow> (r ! i = NaN \<longleftrightarrow> g ! i = Some 0 \<and> l ! i = Some 0))"
proof -
  define g where "g = rolling_mean (nat period) (nat period) (gains (diff1 prices))"
  define l where "l = rolling_mean (nat period) (nat period) (losses (diff1 prices))"
  have rg: "rolling_window_mean period (gains (diff1 prices)) = Inr g"
    and rl: "rolling_window_mean period (losses (diff1 prices)) = Inr l"
    using assms(2) by (simp_all add: rolling_window_mean_def g_def l_def)
  have r: "rsi prices period = Inr (map rsi_value (zip g l))"
    using rg rl by (simp add: rsi_def Let_def)
  have len: "length g = length prices" "length l = length prices" by (simp_all add: g_def l_def)
  have gi: "g ! i = None \<longleftrightarrow> int i + 1 < period"
    using rolling_mean_None_iff [OF nan_free_gains, of i "diff1 prices" "nat period"] assms
    by (auto simp: g_def)
  have li: "l ! i = None \<longleftrightarrow> int i + 1 < period"
    using rolling_mean_None_iff [OF nan_free_losses, of i "diff1 prices" "nat period"] assms
    by (auto simp: l_def)
  have at: "map rsi_value (zip g l) ! i = rsi_value (g ! i, l ! i)"
    using assms(1) len by simp
  have "map rsi_value (zip g l) ! i = NaN \<longleftrightarrow>
          g ! i = None \<or> l ! i = None \<or> (g ! i = Some 0 \<and> l ! i = Some 0)"
    unfolding at by (rule rsi_value_NaN_iff)
  with gi li r rg rl len show ?thesis by auto
qed

lemma macd_defined:
  assumes "nan_free prices" and "i < length prices" and "1 \<le> fast" and "1 \<le> slow" and "1 \<le> sig"
  shows "\<exists>ml sl hist. macd prices fast slow sig = Inr (ml, sl, hist)
           \<and> length ml = length prices \<and> length sl = length prices \<and> length hist = length prices
           \<and> ml ! i \<noteq> None \<and> sl ! i \<noteq> None \<and> hist ! i \<noteq> None"
proof -
  define ef where "ef = ewm_mean (2 / (real_of_int fast + 1)) 0 prices"
  define es where "es = ewm_mean (2 / (real_of_int slow + 1)) 0 prices"
  define ml where "ml = series_sub ef es"
  define sl where "sl = ewm_mean (2 / (real_of_int sig + 1)) 0 ml"
  define hist where "hist = series_sub ml sl"
  have m: "macd prices fast slow sig = Inr (ml, sl, hist)"
    using assms(3,4,5) by (simp add: macd_def ewm_span_def Let_def ef_def es_def ml_def sl_def hist_def)
  have nf: "nan_free ml" unfolding ml_def ef_def es_def
    by (intro nan_free_series_sub nan_free_ewm_mean assms(1))
  have nfs: "nan_free sl" unfolding sl_def by (intro nan_free_ewm_mean nf)
  have nfh: "nan_free hist" unfolding hist_def by (intro nan_free_series_sub nf nfs)
  have len: "length ml = length prices" "length sl = length prices" "length hist = length prices"
    by (simp_all add: ml_def ef_def es_def sl_def hist_def)
  from nan_free_nth [OF nf, of i] nan_free_nth [OF nfs, of i] nan_free_nth [OF nfh, of i]
  show ?thesis using m len assms(2) by auto
qed

text \<open>
  C5, as the code has it.  On prices without NaN and with \<open>period \<ge> 1\<close>: \<open>sma\<close>,
  \<open>ema\<close>, \<open>atr\<close> and the middle Bollinger band are NaN at index \<open>i\<close> exactly when
  \<open>i + 1 < period\<close>, and so are the upper and lower bands when \<open>period \<ge> 2\<close>; \<open>rsi\<close>
  is NaN when \<open>i + 1 < period\<close> and from then on exactly where the window has neither a
  gain nor a loss; the three series of \<open>macd\<close> have a value at every index.
\<close>

theorem indicators_defined_after_window:
  assumes "nan_free prices" and "nan_free high" and "nan_free low"
    and "length high = length prices" and "length low = length prices"
    and "length close = length prices"
    and "i < length prices" and "1 \<le> period" and "1 \<le> fast" and "1 \<le> slow" and "1 \<le> sig"
  shows "(\<exists>s. sma prices period = Inr s \<and> length s = length prices
             \<and> (s ! i = None \<longleftrightarrow> int i + 1 < period))
     \<and> (\<exists>e. ema prices period = Inr e \<and> length e = length prices
             \<and> (e ! i = None \<longleftrightarrow> int i + 1 < period))
     \<and> (\<exists>r. atr high low close period = Inr r \<and> length r = length prices
             \<and> (r ! i = None \<longleftrightarrow> int i + 1 < period))
     \<and> (\<exists>m u l. bollinger_bands prices period num_std = Inr (m, u, l)
           \<and> length m = length prices \<and> length u = length prices \<and> length l = length prices
           \<and> (m ! i = None \<longleftrightarrow> int i + 1 < period)
           \<and> (2 \<le> period \<longrightarrow> (u ! i = None \<longleftrightarrow> int i + 1 < period)
                               \<and> (l ! i = None \<longleftrightarrow> int i + 1 < period)))
     \<and> (\<exists>r g l. rsi prices period = Inr r \<and> length r = length prices
           \<and> rolling_window_mean period (gains (diff1 prices)) = Inr g
           \<and> rolling_window_mean period (losses (diff1 prices)) = Inr l
           \<and> (int i + 1 < period \<longrightarrow> r ! i = NaN)
           \<and> (period \<le> int i + 1 \<longrightarrow> (r ! i = NaN \<longleftrightarrow> g ! i = Some 0 \<and> l ! i = Some 0)))
     \<and> (\<exists>ml sl hist. macd prices fast slow sig = Inr (ml, sl, hist)
           \<and> length ml = length prices \<and> length sl = length prices
           \<and> length hist = length prices
           \<and> ml ! i \<noteq> None \<and> sl ! i \<noteq> None \<and> hist ! i \<noteq> None)"
proof (intro conjI)
  show "\<exists>s. sma prices period = Inr s \<and> length s = length prices
             \<and> (s ! i = None \<longleftrightarrow> int i + 1 < period)"
    by (rule sma_defined [OF assms(1,7,8)])
  show "\<exists>e. ema prices period = Inr e \<and> length e = length prices
             \<and> (e ! i = None \<longleftrightarrow> int i + 1 < period)"
    by (rule ema_defined [OF assms(1,7,8)])
  show "\<exists>r. atr high low close period = Inr r \<and> length r = length prices
             \<and> (r ! i = None \<longleftrightarrow> int i + 1 < period)"
    using atr_defined [OF assms(2,3), of i close period] assms(4,5,6,7,8) by simp
  show "\<exists>m u l. bollinger_bands prices period num_std = Inr (m, u, l)
           \<and> length m = length prices \<and> length u = length prices \<and> length l = length prices
           \<and> (m ! i = None \<longleftrightarrow> int i + 1 < period)
           \<and> (2 \<le> period \<longrightarrow> (u ! i = None \<longleftrightarrow> int i + 1 < period)
                               \<and> (l ! i = None \<longleftrightarrow> int i + 1 < period))"
    by (rule bollinger_defined [OF assms(1,7,8)])
  show "\<exists>r g l. rsi prices period = Inr r \<and> length r = length prices
           \<and> rolling_window_mean period (gains (diff1 prices)) = Inr g
           \<and> rolling_window_mean period (losses (diff1 prices)) = Inr l
           \<and> (int i + 1 < period \<longrightarrow> r ! i = NaN)
           \<and> (period \<le> int i + 1 \<longrightarrow> (r ! i = NaN \<longleftrightarrow> g ! i = Some 0 \<and> l ! i = Some 0))"
    by (rule rsi_defined [OF assms(7,8)])
  show "\<exists>ml sl hist. macd prices fast slow sig = Inr (ml, sl, hist)
           \<and> length ml = length prices \<and> length sl = length prices
           \<and> length hist = length prices
           \<and> ml ! i \<noteq> None \<and> sl ! i \<noteq> None \<and> hist ! i \<noteq> None"
    by (rule macd_defined [OF assms(1,7,9,10,11)])
qed

text \<open>C5 as stated fails: \<open>macd(12, 26, 9)\<close> has values at index 0, and \<open>rsi(2)\<close>
  of constant prices is NaN at every index.\<close>

theorem macd_defined_at_start_counterexample:
  "macd [Some 1, Some 2] 12 26 9 =
     Inr ([Some 0, Some (28 / 351)], [Some 0, Some (28 / 1755)], [Some 0, Some (112 / 1755)])
   \<and> rsi [Some 1, Some 1, Some 1] 2 = Inr [NaN, NaN, NaN]"
  by code_simp

theorem indicators_defined_after_window_witness:
  "nan_free example_prices \<and> (0::nat) < length example_prices \<and> (1::nat) < length example_prices
   \<and> (\<exists>s. sma example_prices 2 = Inr s \<and> s ! 0 = None \<and> s ! 1 \<noteq> None)
   \<and> (\<exists>e. ema example_prices 2 = Inr e \<and> e ! 0 = None \<and> e ! 1 \<noteq> None)
   \<and> (\<exists>r. rsi example_prices 2 = Inr r \<and> r ! 0 = NaN)
   \<and> (\<exists>ml sl hist. macd example_prices 12 26 9 = Inr (ml, sl, hist) \<and> ml ! 0 \<noteq> None)"
proof -
  have nf: "nan_free example_prices" by (simp add: nan_free_def example_prices_def)
  have l: "length example_prices = length example_prices" by simp
  have i0: "(0::nat) < length example_prices" and i1: "(1::nat) < length example_prices"
    by (simp_all add: example_prices_def)
  note t0 = indicators_defined_after_window [OF nf nf nf l l l i0, where period = 2 and fast = 12 and slow = 26 and sig = 9
      and num_std = 2]
  note t1 = indicators_defined_after_window [OF nf nf nf l l l i1, where period = 2 and fast = 12 and slow = 26 and sig = 9
      and num_std = 2]
  have "\<exists>s. sma example_prices 2 = Inr s \<and> s ! 0 = None \<and> s ! 1 \<noteq> None"
    using t0 t1 by auto
  moreover have "\<exists>e. ema example_prices 2 = Inr e \<and> e ! 0 = None \<and> e ! 1 \<noteq> None"
    using t0 t1 by auto
  moreover have "\<exists>r. rsi example_prices 2 = Inr r \<and> r ! 0 = NaN"
    using t0 by auto
  moreover have "\<exists>ml sl hist. macd example_prices 12 26 9 = Inr (ml, sl, hist) \<and> ml ! 0 \<noteq> None"
    using t0 by auto
  ultimately show ?thesis using nf i0 i1 by blast
qed

end
